theory Spec2Isabelle
  imports Complex_Main
begin

section \<open>Values, errors and the canonical (raw) graph\<close>

text \<open>
  JavaScript exceptions are values. \<open>UsageGraphError\<close> and \<open>NotFoundGraphError\<close> are the two
  errors the graph library raises (duplicate key; missing node or edge), \<open>TypeError\<close> is a
  property access on \<open>undefined\<close>, \<open>ApiError\<close> a rejected request, and \<open>Error msg\<close> the
  \<open>new Error(msg)\<close> of the store.
\<close>

datatype error = UsageGraphError | NotFoundGraphError | TypeError | ApiError string | Error string

text \<open>
  Property values are JSON scalars: strings and numbers (doubles, modelled as reals).
  A field that may be missing from a record is an \<open>option\<close>, \<open>None\<close> being \<open>undefined\<close>.
  Identifiers are strings, so \<open>String(id)\<close> is the identity.
\<close>

datatype pval = PStr string | PNum real

fun truthy :: "pval \<Rightarrow> bool" where
  "truthy (PStr s) = (s \<noteq> [])"
| "truthy (PNum r) = (r \<noteq> 0)"

type_synonym props = "string \<rightharpoonup> pval"

record raw_node =
  n_id :: string
  n_labels :: "string list option"
  n_properties :: "props option"
  n_x :: "real option"
  n_y :: "real option"
  n_size :: "real option"
  n_color :: "string option"

record raw_edge =
  e_id :: "string option"
  e_dynamicId :: "string option"
  e_source :: string
  e_target :: string
  e_type :: "string option"
  e_properties :: "props option"

text \<open>\<open>class RawGraph\<close>: two arrays and three index objects (key to array index).\<close>

record raw_graph =
  nodes :: "raw_node list"
  edges :: "raw_edge list"
  nodeIdMap :: "string \<rightharpoonup> nat"
  edgeIdMap :: "string \<rightharpoonup> nat"
  edgeDynamicIdMap :: "string \<rightharpoonup> nat"

definition new_RawGraph :: raw_graph where
  "new_RawGraph = \<lparr>nodes = [], edges = [], nodeIdMap = Map.empty, edgeIdMap = Map.empty,
     edgeDynamicIdMap = Map.empty\<rparr>"

text \<open>A missing field used as an object key is the key \<open>"undefined"\<close>.\<close>

definition keyOf :: "string option \<Rightarrow> string" where
  "keyOf k = (case k of None \<Rightarrow> ''undefined'' | Some s \<Rightarrow> s)"

definition getNode :: "raw_graph \<Rightarrow> string \<Rightarrow> raw_node option" where
  "getNode rg nodeId =
     (case nodeIdMap rg nodeId of
        None \<Rightarrow> None
      | Some idx \<Rightarrow> if idx < length (nodes rg) then Some (nodes rg ! idx) else None)"

definition getEdge :: "raw_graph \<Rightarrow> string \<Rightarrow> bool \<Rightarrow> raw_edge option" where
  "getEdge rg edgeId dynamicId =
     (case (if dynamicId then edgeDynamicIdMap rg edgeId else edgeIdMap rg edgeId) of
        None \<Rightarrow> None
      | Some idx \<Rightarrow> if idx < length (edges rg) then Some (edges rg ! idx) else None)"

text \<open>The loop of \<open>buildDynamicMap\<close>, from index \<open>i\<close> on; a later edge overwrites an earlier key.\<close>

fun dynamicMapFrom :: "nat \<Rightarrow> raw_edge list \<Rightarrow> (string \<rightharpoonup> nat) \<Rightarrow> (string \<rightharpoonup> nat)" where
  "dynamicMapFrom i [] m = m"
| "dynamicMapFrom i (e # es) m = dynamicMapFrom (Suc i) es (m(keyOf (e_dynamicId e) \<mapsto> i))"

definition buildDynamicMap :: "raw_graph \<Rightarrow> raw_graph" where
  "buildDynamicMap rg = rg\<lparr>edgeDynamicIdMap := dynamicMapFrom 0 (edges rg) Map.empty\<rparr>"

fun nodeIdMapFrom :: "nat \<Rightarrow> raw_node list \<Rightarrow> (string \<rightharpoonup> nat) \<Rightarrow> (string \<rightharpoonup> nat)" where
  "nodeIdMapFrom i [] m = m"
| "nodeIdMapFrom i (n # ns) m = nodeIdMapFrom (Suc i) ns (m(n_id n \<mapsto> i))"

fun edgeIdMapFrom :: "nat \<Rightarrow> raw_edge list \<Rightarrow> (string \<rightharpoonup> nat) \<Rightarrow> (string \<rightharpoonup> nat)" where
  "edgeIdMapFrom i [] m = m"
| "edgeIdMapFrom i (e # es) m = edgeIdMapFrom (Suc i) es (m(keyOf (e_id e) \<mapsto> i))"


section \<open>The render graph: a directed multigraph keyed by node id and edge key\<close>

text \<open>
  The store keeps a \<open>MultiDirectedGraph\<close> of the graphology library. The library is not part
  of the repository; the operations below follow its documented contract: nodes and edges
  are kept in insertion order, \<open>addNode\<close> and \<open>addEdgeWithKey\<close> raise on an existing key,
  every operation naming a node or an edge that does not exist raises, \<open>dropNode\<close> removes
  the node's edges with it, and \<open>addEdge\<close> generates the key
  \<open>geid_<instance>_<counter>\<close>, skipping keys already in use.

  The attribute object built by \<open>fetchGraph\<close> holds the very \<open>properties\<close> object of the
  raw record (\<open>properties: n.properties || {}\<close>): \<open>na_properties = Some i\<close> says that the
  attribute is the properties object of raw node \<open>i\<close>, \<open>None\<close> that it is an object of its
  own. The same for edges.
\<close>

record node_attrs =
  na_x :: real
  na_y :: real
  na_size :: real
  na_color :: string
  na_label :: pval
  na_labels :: "string list"
  na_properties :: "nat option"
  na_highlighted :: bool

record edge_attrs =
  ea_label :: "string option"
  ea_properties :: "nat option"
  ea_source :: string
  ea_target :: string
  ea_type :: string
  ea_size :: "real option"
  ea_dynamicId :: "string option"

record edge_data =
  ed_key :: string
  ed_source :: string
  ed_target :: string
  ed_attrs :: edge_attrs

record sigma_graph =
  g_nodes :: "(string \<times> node_attrs) list"
  g_edges :: "edge_data list"
  g_instance :: nat
  g_edgeId :: nat

definition new_MultiDirectedGraph :: "nat \<Rightarrow> sigma_graph" where
  "new_MultiDirectedGraph inst = \<lparr>g_nodes = [], g_edges = [], g_instance = inst, g_edgeId = 0\<rparr>"

definition order :: "sigma_graph \<Rightarrow> nat" where
  "order g = length (g_nodes g)"

definition hasNode :: "sigma_graph \<Rightarrow> string \<Rightarrow> bool" where
  "hasNode g k = (k \<in> set (map fst (g_nodes g)))"

definition hasEdge :: "sigma_graph \<Rightarrow> string \<Rightarrow> bool" where
  "hasEdge g k = (k \<in> set (map ed_key (g_edges g)))"

definition getNodeAttributes :: "sigma_graph \<Rightarrow> string \<Rightarrow> node_attrs option" where
  "getNodeAttributes g k = map_of (g_nodes g) k"

definition addNode :: "sigma_graph \<Rightarrow> string \<Rightarrow> node_attrs \<Rightarrow> error + sigma_graph" where
  "addNode g k a =
     (if hasNode g k then Inl UsageGraphError
      else Inr (g\<lparr>g_nodes := g_nodes g @ [(k, a)]\<rparr>))"

definition addEdgeWithKey ::
  "sigma_graph \<Rightarrow> string \<Rightarrow> string \<Rightarrow> string \<Rightarrow> edge_attrs \<Rightarrow> error + sigma_graph" where
  "addEdgeWithKey g key src tgt a =
     (if \<not> hasNode g src then Inl NotFoundGraphError
      else if \<not> hasNode g tgt then Inl NotFoundGraphError
      else if hasEdge g key then Inl UsageGraphError
      else Inr (g\<lparr>g_edges := g_edges g @
             [\<lparr>ed_key = key, ed_source = src, ed_target = tgt, ed_attrs = a\<rparr>]\<rparr>))"

text \<open>Decimal rendering of a counter, and the generated edge key.\<close>

fun show_nat :: "nat \<Rightarrow> string" where
  "show_nat n =
     (if n < 10 then [''0123456789'' ! n]
      else show_nat (n div 10) @ [''0123456789'' ! (n mod 10)])"

declare show_nat.simps [simp del]

definition geid :: "nat \<Rightarrow> nat \<Rightarrow> string" where
  "geid inst n = ''geid_'' @ show_nat inst @ ''_'' @ show_nat n"

text \<open>
  The generator's \<open>do ... while (edge key exists)\<close> loop, from counter \<open>n\<close>. The candidates
  are pairwise different, so the loop meets a free key after at most as many steps as
  there are keys; the first argument is that bound.
\<close>

fun edgeKeyGenerator :: "nat \<Rightarrow> string list \<Rightarrow> nat \<Rightarrow> nat \<Rightarrow> nat" where
  "edgeKeyGenerator 0 ks inst n = n"
| "edgeKeyGenerator (Suc fuel) ks inst n =
     (if geid inst n \<in> set ks then edgeKeyGenerator fuel ks inst (Suc n) else n)"

definition addEdge ::
  "sigma_graph \<Rightarrow> string \<Rightarrow> string \<Rightarrow> edge_attrs \<Rightarrow> error + (string \<times> sigma_graph)" where
  "addEdge g src tgt a =
     (if \<not> hasNode g src then Inl NotFoundGraphError
      else if \<not> hasNode g tgt then Inl NotFoundGraphError
      else
        let ks = map ed_key (g_edges g);
            n = edgeKeyGenerator (length ks) ks (g_instance g) (g_edgeId g);
            key = geid (g_instance g) n
        in Inr (key, g\<lparr>g_edges := g_edges g @
                  [\<lparr>ed_key = key, ed_source = src, ed_target = tgt, ed_attrs = a\<rparr>],
                g_edgeId := Suc n\<rparr>))"

definition dropEdge :: "sigma_graph \<Rightarrow> string \<Rightarrow> error + sigma_graph" where
  "dropEdge g key =
     (if \<not> hasEdge g key then Inl NotFoundGraphError
      else Inr (g\<lparr>g_edges := filter (\<lambda>e. ed_key e \<noteq> key) (g_edges g)\<rparr>))"

definition dropNode :: "sigma_graph \<Rightarrow> string \<Rightarrow> error + sigma_graph" where
  "dropNode g k =
     (if \<not> hasNode g k then Inl NotFoundGraphError
      else Inr (g\<lparr>g_nodes := filter (\<lambda>(k', a). k' \<noteq> k) (g_nodes g),
                g_edges := filter (\<lambda>e. ed_source e \<noteq> k \<and> ed_target e \<noteq> k) (g_edges g)\<rparr>))"

text \<open>
  The edges \<open>forEachEdge(node, ...)\<close> and \<open>edges(node)\<close> visit: the incoming edges (a
  self-loop among them), then the outgoing edges that are not self-loops, so that every
  incident edge is visited once. The callback may add and drop edges; the edges added
  during the walk are not visited. Within the two groups the library follows its
  adjacency index; the model keeps insertion order, and nothing stated below about more
  than one incident edge depends on the order.
\<close>

definition edgesOfNode :: "sigma_graph \<Rightarrow> string \<Rightarrow> edge_data list" where
  "edgesOfNode g k =
     filter (\<lambda>e. ed_target e = k) (g_edges g) @
     filter (\<lambda>e. ed_source e = k \<and> ed_target e \<noteq> k) (g_edges g)"

text \<open>In-degree plus out-degree; a self-loop counts twice.\<close>

definition degree :: "sigma_graph \<Rightarrow> string \<Rightarrow> nat" where
  "degree g k =
     length (filter (\<lambda>e. ed_target e = k) (g_edges g)) +
     length (filter (\<lambda>e. ed_source e = k) (g_edges g))"

definition updateNodeAttrs ::
  "sigma_graph \<Rightarrow> string \<Rightarrow> (node_attrs \<Rightarrow> node_attrs) \<Rightarrow> error + sigma_graph" where
  "updateNodeAttrs g k f =
     (if \<not> hasNode g k then Inl NotFoundGraphError
      else Inr (g\<lparr>g_nodes := map (\<lambda>(k', a). if k' = k then (k', f a) else (k', a)) (g_nodes g)\<rparr>))"


section \<open>The graph store\<close>

text \<open>
  The state of \<open>useGraphStore\<close>. \<open>requests\<close> is not a field of the source: it counts the
  calls of \<open>graphApi.queryGraph\<close>, so that the number of requests an action sends can be
  stated.
\<close>

record graph_store =
  selectedNode :: "string option"
  focusedNode :: "string option"
  selectedEdge :: "string option"
  focusedEdge :: "string option"
  rawGraph :: "raw_graph option"
  sigmaGraph :: "sigma_graph option"
  moveToSelectedNode :: bool
  isFetching :: bool
  graphIsEmpty :: bool
  lastSuccessfulQueryLabel :: string
  graphDataFetchAttempted :: bool
  graphDataVersion :: nat
  requests :: nat

definition initial_store :: graph_store where
  "initial_store = \<lparr>selectedNode = None, focusedNode = None, selectedEdge = None,
     focusedEdge = None, rawGraph = None, sigmaGraph = None, moveToSelectedNode = False,
     isFetching = False, graphIsEmpty = False, lastSuccessfulQueryLabel = [],
     graphDataFetchAttempted = False, graphDataVersion = 0, requests = 0\<rparr>"

definition setSelectedNode :: "string option \<Rightarrow> graph_store \<Rightarrow> graph_store" where
  "setSelectedNode nodeId st = st\<lparr>selectedNode := nodeId\<rparr>"

definition setFocusedNode :: "string option \<Rightarrow> graph_store \<Rightarrow> graph_store" where
  "setFocusedNode nodeId st = st\<lparr>focusedNode := nodeId\<rparr>"

definition incrementGraphDataVersion :: "graph_store \<Rightarrow> graph_store" where
  "incrementGraphDataVersion st = st\<lparr>graphDataVersion := graphDataVersion st + 1\<rparr>"

text \<open>
  What the store takes from outside: the answer of the backend to the \<open>k\<close>-th request
  (\<open>Inl\<close> a rejected promise), the draws of \<open>Math.random\<close>, \<open>Number\<close> on strings
  (\<open>None\<close> is \<open>NaN\<close>) and the instance number the graph library gives a new graph.
\<close>

datatype response =
  RespNone
| RespGraph "raw_node list" "raw_edge list"
| RespData "raw_node list" "raw_edge list"
| RespOther

record env =
  queryGraph :: "nat \<Rightarrow> error + response"
  math_random :: "nat \<Rightarrow> real"
  string_to_number :: "string \<Rightarrow> real option"
  instanceId :: nat

definition normalizeGraphResponse :: "response \<Rightarrow> raw_node list \<times> raw_edge list" where
  "normalizeGraphResponse resp =
     (case resp of
        RespNone \<Rightarrow> ([], [])
      | RespGraph ns es \<Rightarrow> (ns, es)
      | RespData ns es \<Rightarrow> (ns, es)
      | RespOther \<Rightarrow> ([], []))"

definition toNumber :: "env \<Rightarrow> pval \<Rightarrow> real option" where
  "toNumber env v = (case v of PNum r \<Rightarrow> Some r | PStr s \<Rightarrow> string_to_number env s)"

text \<open>The attributes of the render node built for raw node \<open>n\<close> at index \<open>i\<close>.\<close>

definition nodeAttrs :: "env \<Rightarrow> nat \<Rightarrow> raw_node \<Rightarrow> node_attrs" where
  "nodeAttrs env i n =
     \<lparr>na_x = (case n_x n of Some v \<Rightarrow> v | None \<Rightarrow> math_random env (2 * i) * 10 - 5),
      na_y = (case n_y n of Some v \<Rightarrow> v | None \<Rightarrow> math_random env (2 * i + 1) * 10 - 5),
      na_size = (case n_size n of Some v \<Rightarrow> v | None \<Rightarrow> 4),
      na_color = (case n_color n of Some c \<Rightarrow> c | None \<Rightarrow> ''#7aa2ff''),
      na_label =
        (case n_properties n of
           None \<Rightarrow> PStr (n_id n)
         | Some p \<Rightarrow>
             (case p ''entity_id'' of
                None \<Rightarrow> PStr (n_id n)
              | Some v \<Rightarrow> if truthy v then v else PStr (n_id n))),
      na_labels = (case n_labels n of Some ls \<Rightarrow> ls | None \<Rightarrow> []),
      na_properties = (case n_properties n of Some p \<Rightarrow> Some i | None \<Rightarrow> None),
      na_highlighted = False\<rparr>"

text \<open>\<open>Math.min(6, 1 + w * 1.5)\<close> with \<open>w = Number(e.properties?.weight ?? 1)\<close>.\<close>

definition edgeWeight :: "env \<Rightarrow> raw_edge \<Rightarrow> real option" where
  "edgeWeight env e =
     (case e_properties e of
        None \<Rightarrow> Some 1
      | Some p \<Rightarrow> (case p ''weight'' of None \<Rightarrow> Some 1 | Some v \<Rightarrow> toNumber env v))"

definition edgeSize :: "env \<Rightarrow> raw_edge \<Rightarrow> real option" where
  "edgeSize env e = map_option (\<lambda>w. min 6 (1 + w * 1.5)) (edgeWeight env e)"

definition edgeAttrs :: "env \<Rightarrow> nat \<Rightarrow> raw_edge \<Rightarrow> edge_attrs" where
  "edgeAttrs env i e =
     \<lparr>ea_label = e_id e,
      ea_properties = (case e_properties e of Some p \<Rightarrow> Some i | None \<Rightarrow> None),
      ea_source = e_source e,
      ea_target = e_target e,
      ea_type = (if e_type e = Some ''DIRECTED'' then ''curvedArrow'' else ''curvedNoArrow''),
      ea_size = edgeSize env e,
      ea_dynamicId = None\<rparr>"

definition edgeKey :: "raw_edge \<Rightarrow> string" where
  "edgeKey e = (case e_id e of Some k \<Rightarrow> k | None \<Rightarrow> e_source e @ ''->'' @ e_target e)"

fun addNodes :: "env \<Rightarrow> nat \<Rightarrow> raw_node list \<Rightarrow> sigma_graph \<Rightarrow> error + sigma_graph" where
  "addNodes env i [] g = Inr g"
| "addNodes env i (n # ns) g =
     (case addNode g (n_id n) (nodeAttrs env i n) of
        Inl err \<Rightarrow> Inl err
      | Inr g' \<Rightarrow> addNodes env (Suc i) ns g')"

fun addEdges :: "env \<Rightarrow> nat \<Rightarrow> raw_edge list \<Rightarrow> sigma_graph \<Rightarrow> error + sigma_graph" where
  "addEdges env i [] g = Inr g"
| "addEdges env i (e # es) g =
     (case addEdgeWithKey g (edgeKey e) (e_source e) (e_target e) (edgeAttrs env i e) of
        Inl err \<Rightarrow> Inl err
      | Inr g' \<Rightarrow> addEdges env (Suc i) es g')"

definition buildRawGraph :: "raw_node list \<Rightarrow> raw_edge list \<Rightarrow> raw_graph" where
  "buildRawGraph ns es =
     buildDynamicMap
       (new_RawGraph\<lparr>nodes := ns, edges := es,
          nodeIdMap := nodeIdMapFrom 0 ns Map.empty,
          edgeIdMap := edgeIdMapFrom 0 es Map.empty\<rparr>)"

definition buildSigmaGraph :: "env \<Rightarrow> raw_graph \<Rightarrow> error + sigma_graph" where
  "buildSigmaGraph env rg =
     (case addNodes env 0 (nodes rg) (new_MultiDirectedGraph (instanceId env)) of
        Inl err \<Rightarrow> Inl err
      | Inr g \<Rightarrow> addEdges env 0 (edges rg) g)"

text \<open>The \<open>catch\<close> and \<open>finally\<close> blocks of \<open>fetchGraph\<close>; the error is thrown again.\<close>

definition fetchFailed :: "error \<Rightarrow> graph_store \<Rightarrow> error option \<times> graph_store" where
  "fetchFailed err st =
     (Some err, st\<lparr>sigmaGraph := None, rawGraph := None, graphIsEmpty := True,
                  isFetching := False\<rparr>)"

definition fetchGraph :: "env \<Rightarrow> graph_store \<Rightarrow> error option \<times> graph_store" where
  "fetchGraph env st =
     (let st1 = st\<lparr>isFetching := True, graphDataFetchAttempted := True\<rparr>;
          st2 = st1\<lparr>requests := requests st1 + 1\<rparr>
      in case queryGraph env (requests st) of
           Inl err \<Rightarrow> fetchFailed err st2
         | Inr resp \<Rightarrow>
             (let (ns, es) = normalizeGraphResponse resp;
                  rg = buildRawGraph ns es
              in case buildSigmaGraph env rg of
                   Inl err \<Rightarrow> fetchFailed err st2
                 | Inr g \<Rightarrow>
                     (None,
                      (incrementGraphDataVersion
                         (st2\<lparr>rawGraph := Some rg, sigmaGraph := Some g,
                              graphIsEmpty := (order g = 0)\<rparr>))
                        \<lparr>lastSuccessfulQueryLabel := ''*'', isFetching := False\<rparr>)))"


section \<open>Editing a node: \<open>updateNodeAndSelect\<close>\<close>

text \<open>
  Both graphs are objects mutated in place, so an exception leaves them as the steps
  before it made them: every function below returns the state reached together with the
  error, if any. The new value comes from the text field of the panel and is a string, so
  \<open>String(newValue)\<close> is the value itself.
\<close>

type_synonym edge_update = "string \<times> string \<times> nat"

text \<open>
  Step 2, the callback of \<open>forEachEdge\<close> over the edges \<open>es\<close> still to visit. An entry of
  \<open>edgesToUpdate\<close> is (originalDynamicId, newEdgeId, edgeIndex).
\<close>

fun rewire ::
  "string \<Rightarrow> string \<Rightarrow> (string \<rightharpoonup> nat) \<Rightarrow> edge_data list \<Rightarrow> sigma_graph \<Rightarrow> edge_update list
     \<Rightarrow> error option \<times> sigma_graph \<times> edge_update list" where
  "rewire nodeId newId dm [] g ups = (None, g, ups)"
| "rewire nodeId newId dm (e # es) g ups =
     (let other = (if ed_source e = nodeId then ed_target e else ed_source e);
          isOut = (ed_source e = nodeId);
          originalDyn =
            (case ea_dynamicId (ed_attrs e) of
               None \<Rightarrow> ed_key e
             | Some d \<Rightarrow> if d = [] then ed_key e else d);
          rawIndex = dm originalDyn
      in case addEdge g (if isOut then newId else other) (if isOut then other else newId)
                (ed_attrs e) of
           Inl err \<Rightarrow> (Some err, g, ups)
         | Inr (newEdgeKey, g1) \<Rightarrow>
             (let ups1 =
                    (case rawIndex of
                       None \<Rightarrow> ups
                     | Some i \<Rightarrow> ups @ [(originalDyn, newEdgeKey, i)])
              in case dropEdge g1 (ed_key e) of
                   Inl err \<Rightarrow> (Some err, g1, ups1)
                 | Inr g2 \<Rightarrow> rewire nodeId newId dm es g2 ups1))"

text \<open>Step 4: the raw node and the node index.\<close>

definition renameRawNode :: "string \<Rightarrow> string \<Rightarrow> raw_graph \<Rightarrow> error option \<times> raw_graph" where
  "renameRawNode nodeId newId rg =
     (case nodeIdMap rg nodeId of
        None \<Rightarrow> (None, rg)
      | Some nodeIndex \<Rightarrow>
          if length (nodes rg) \<le> nodeIndex then (Some TypeError, rg)
          else
            let n1 = (nodes rg ! nodeIndex)\<lparr>n_id := newId, n_labels := Some [newId]\<rparr>
            in case n_properties n1 of
                 None \<Rightarrow> (Some TypeError, rg\<lparr>nodes := (nodes rg)[nodeIndex := n1]\<rparr>)
               | Some p \<Rightarrow>
                   (None,
                    rg\<lparr>nodes := (nodes rg)
                          [nodeIndex := n1\<lparr>n_properties := Some (p(''entity_id'' \<mapsto> PStr newId))\<rparr>],
                       nodeIdMap := ((nodeIdMap rg)(nodeId := None))(newId \<mapsto> nodeIndex)\<rparr>))"

text \<open>Step 5: the raw edges and the dynamic-id index.\<close>

fun updateRawEdges :: "string \<Rightarrow> string \<Rightarrow> edge_update list \<Rightarrow> raw_graph \<Rightarrow> raw_graph" where
  "updateRawEdges nodeId newId [] rg = rg"
| "updateRawEdges nodeId newId ((originalDynamicId, newEdgeId, edgeIndex) # ups) rg =
     (if length (edges rg) \<le> edgeIndex then updateRawEdges nodeId newId ups rg
      else
        let edge = edges rg ! edgeIndex;
            edge1 = (if e_source edge = nodeId then edge\<lparr>e_source := newId\<rparr> else edge);
            edge2 = (if e_target edge1 = nodeId then edge1\<lparr>e_target := newId\<rparr> else edge1);
            edge3 = edge2\<lparr>e_dynamicId := Some newEdgeId\<rparr>
        in updateRawEdges nodeId newId ups
             (rg\<lparr>edges := (edges rg)[edgeIndex := edge3],
                 edgeDynamicIdMap :=
                   ((edgeDynamicIdMap rg)(originalDynamicId := None))(newEdgeId \<mapsto> edgeIndex)\<rparr>))"

text \<open>The rename branch (\<open>nodeId === entityId\<close> and the property is \<open>entity_id\<close>).\<close>

definition renameNode ::
  "string \<Rightarrow> string \<Rightarrow> sigma_graph \<Rightarrow> raw_graph \<Rightarrow> graph_store \<Rightarrow> error option \<times> graph_store" where
  "renameNode nodeId newId g rg st =
     (case getNodeAttributes g nodeId of
        None \<Rightarrow> (Some NotFoundGraphError, st)
      | Some attrs \<Rightarrow>
          (case addNode g newId (attrs\<lparr>na_label := PStr newId\<rparr>) of
             Inl err \<Rightarrow> (Some err, st)
           | Inr g1 \<Rightarrow>
               (case rewire nodeId newId (edgeDynamicIdMap rg) (edgesOfNode g1 nodeId) g1 [] of
                  (Some err, g2, ups) \<Rightarrow> (Some err, st\<lparr>sigmaGraph := Some g2\<rparr>)
                | (None, g2, ups) \<Rightarrow>
                    (case dropNode g2 nodeId of
                       Inl err \<Rightarrow> (Some err, st\<lparr>sigmaGraph := Some g2\<rparr>)
                     | Inr g3 \<Rightarrow>
                         (case renameRawNode nodeId newId rg of
                            (Some err, rg1) \<Rightarrow>
                              (Some err, st\<lparr>sigmaGraph := Some g3, rawGraph := Some rg1\<rparr>)
                          | (None, rg1) \<Rightarrow>
                              (None,
                               setSelectedNode (Some newId)
                                 (st\<lparr>sigmaGraph := Some g3,
                                     rawGraph := Some (updateRawEdges nodeId newId ups rg1)\<rparr>)))))))"

text \<open>The other branch: a plain property update.\<close>

definition updateProperty ::
  "string \<Rightarrow> string \<Rightarrow> string \<Rightarrow> sigma_graph \<Rightarrow> raw_graph \<Rightarrow> graph_store
     \<Rightarrow> error option \<times> graph_store" where
  "updateProperty nodeId propertyName newValue g rg st =
     (case nodeIdMap rg nodeId of
        None \<Rightarrow> (None, incrementGraphDataVersion st)
      | Some nodeIndex \<Rightarrow>
          if length (nodes rg) \<le> nodeIndex then (Some TypeError, st)
          else
            (case n_properties (nodes rg ! nodeIndex) of
               None \<Rightarrow> (Some TypeError, st)
             | Some p \<Rightarrow>
                 let n1 = (nodes rg ! nodeIndex)
                            \<lparr>n_properties := Some (p(propertyName \<mapsto> PStr newValue))\<rparr>
                 in if propertyName = ''entity_id'' then
                      let rg2 = rg\<lparr>nodes := (nodes rg)[nodeIndex := n1\<lparr>n_labels := Some [newValue]\<rparr>]\<rparr>
                      in case updateNodeAttrs g nodeId (\<lambda>a. a\<lparr>na_label := PStr newValue\<rparr>) of
                           Inl err \<Rightarrow> (Some err, st\<lparr>rawGraph := Some rg2\<rparr>)
                         | Inr g1 \<Rightarrow>
                             (None,
                              incrementGraphDataVersion
                                (st\<lparr>rawGraph := Some rg2, sigmaGraph := Some g1\<rparr>))
                    else
                      (None,
                       incrementGraphDataVersion
                         (st\<lparr>rawGraph := Some (rg\<lparr>nodes := (nodes rg)[nodeIndex := n1]\<rparr>)\<rparr>))))"

definition updateNodeAndSelect ::
  "string \<Rightarrow> string \<Rightarrow> string \<Rightarrow> string \<Rightarrow> graph_store \<Rightarrow> error option \<times> graph_store" where
  "updateNodeAndSelect nodeId entityId propertyName newValue st =
     (case sigmaGraph st of
        None \<Rightarrow> (None, st)
      | Some g \<Rightarrow>
          (case rawGraph st of
             None \<Rightarrow> (None, st)
           | Some rg \<Rightarrow>
               if \<not> hasNode g nodeId then (None, st)
               else
                 (case (if nodeId = entityId \<and> propertyName = ''entity_id''
                        then renameNode nodeId newValue g rg st
                        else updateProperty nodeId propertyName newValue g rg st) of
                    (None, st') \<Rightarrow> (None, st')
                  | (Some err, st') \<Rightarrow> (Some (Error ''Failed to update node in graph''), st'))))"


section \<open>The viewer: sizing by degree\<close>

text \<open>
  \<open>Math.max(MIN, Math.min(MAX, BASE + Math.log2(1 + d) * GAIN))\<close>; doubles are modelled as
  reals and \<open>Math.log2\<close> as the logarithm to base 2.
\<close>

definition nodeSize :: "nat \<Rightarrow> real" where
  "nodeSize d = max 1 (min 40 (5 + log 2 (1 + real d) * 4))"

definition sizeByDegree :: "sigma_graph \<Rightarrow> sigma_graph" where
  "sizeByDegree g =
     (if order g = 0 then g
      else g\<lparr>g_nodes := map (\<lambda>(n, a). (n, a\<lparr>na_size := nodeSize (degree g n)\<rparr>)) (g_nodes g)\<rparr>)"


section \<open>The viewer: pointer handlers\<close>

text \<open>
  The drag state of the viewer component. \<open>sigma\<close> says that a renderer exists;
  \<open>currentGraph\<close> is the graph the renderer shows (the render graph of the store once
  one is loaded). A handler that raises leaves the assignments made before the exception
  in place. \<open>viewportToGraph\<close> is the renderer's change of coordinates, a parameter here.
\<close>

record viewer =
  enableNodeDrag :: bool
  sigma :: bool
  currentGraph :: "sigma_graph option"
  draggedNode :: "string option"
  isDragging :: bool
  dragMoved :: bool
  dragStart :: "real \<times> real"

definition initial_viewer :: "sigma_graph option \<Rightarrow> viewer" where
  "initial_viewer g = \<lparr>enableNodeDrag = True, sigma = True, currentGraph = g,
     draggedNode = None, isDragging = False, dragMoved = False, dragStart = (0, 0)\<rparr>"

text \<open>
  The renderer's events, and the switch bound to \<open>enableNodeDrag\<close>. \<open>MouseUp\<close> stands for
  \<open>upNode\<close>, \<open>mouseupbody\<close> and \<open>mouseup\<close>, which share one handler. What a handler does
  to the store is listed as calls.
\<close>

datatype event =
  DownNode string real real
| MouseMoveBody real real
| MouseUp
| ClickNode string
| EnterNode string
| LeaveNode
| SetDragEnabled bool

datatype emitted = CallSetSelectedNode string | CallSetFocusedNode "string option" | Threw error

definition DRAG_CLICK_EPS :: real where
  "DRAG_CLICK_EPS = 4"

text \<open>A string reference is truthy when it is present and not the empty string.\<close>

definition nonEmpty :: "string option \<Rightarrow> string option" where
  "nonEmpty r = (case r of None \<Rightarrow> None | Some s \<Rightarrow> if s = [] then None else Some s)"

definition onDownNode :: "viewer \<Rightarrow> string \<Rightarrow> real \<Rightarrow> real \<Rightarrow> viewer \<times> emitted list" where
  "onDownNode v node x y =
     (case currentGraph v of
        None \<Rightarrow> (v, [])
      | Some g \<Rightarrow>
          if \<not> enableNodeDrag v then (v, [])
          else
            let v1 = v\<lparr>draggedNode := Some node, isDragging := True, dragMoved := False,
                       dragStart := (x, y)\<rparr>
            in case updateNodeAttrs g node (\<lambda>a. a\<lparr>na_highlighted := True\<rparr>) of
                 Inl err \<Rightarrow> (v1, [Threw err])
               | Inr g1 \<Rightarrow> (v1\<lparr>currentGraph := Some g1\<rparr>, []))"

definition onMouseMove ::
  "(real \<times> real \<Rightarrow> real \<times> real) \<Rightarrow> viewer \<Rightarrow> real \<Rightarrow> real \<Rightarrow> viewer \<times> emitted list" where
  "onMouseMove viewportToGraph v x y =
     (case (nonEmpty (draggedNode v), currentGraph v) of
        (Some node, Some g) \<Rightarrow>
          if \<not> enableNodeDrag v \<or> \<not> isDragging v \<or> \<not> sigma v then (v, [])
          else
            let dx = x - fst (dragStart v);
                dy = y - snd (dragStart v);
                v1 = (if \<not> dragMoved v \<and> dx * dx + dy * dy > DRAG_CLICK_EPS * DRAG_CLICK_EPS
                      then v\<lparr>dragMoved := True\<rparr> else v);
                pos = viewportToGraph (x, y)
            in case updateNodeAttrs g node (\<lambda>a. a\<lparr>na_x := fst pos\<rparr>) of
                 Inl err \<Rightarrow> (v1, [Threw err])
               | Inr g1 \<Rightarrow>
                   (case updateNodeAttrs g1 node (\<lambda>a. a\<lparr>na_y := snd pos\<rparr>) of
                      Inl err \<Rightarrow> (v1\<lparr>currentGraph := Some g1\<rparr>, [Threw err])
                    | Inr g2 \<Rightarrow> (v1\<lparr>currentGraph := Some g2\<rparr>, []))
      | _ \<Rightarrow> (v, []))"

definition onMouseUp :: "viewer \<Rightarrow> viewer \<times> emitted list" where
  "onMouseUp v =
     (if \<not> enableNodeDrag v then (v, [])
      else
        (case (nonEmpty (draggedNode v), currentGraph v) of
           (Some node, Some g) \<Rightarrow>
             (case updateNodeAttrs g node (\<lambda>a. a\<lparr>na_highlighted := False\<rparr>) of
                Inl err \<Rightarrow> (v, [Threw err])
              | Inr g1 \<Rightarrow> (v\<lparr>currentGraph := Some g1, draggedNode := None, isDragging := False\<rparr>, []))
         | _ \<Rightarrow> (v\<lparr>isDragging := False\<rparr>, [])))"

definition onClickNode :: "viewer \<Rightarrow> string \<Rightarrow> viewer \<times> emitted list" where
  "onClickNode v node =
     (if isDragging v \<or> dragMoved v then (v, []) else (v, [CallSetSelectedNode node]))"

fun step :: "(real \<times> real \<Rightarrow> real \<times> real) \<Rightarrow> viewer \<Rightarrow> event \<Rightarrow> viewer \<times> emitted list" where
  "step vtg v (DownNode node x y) = onDownNode v node x y"
| "step vtg v (MouseMoveBody x y) = onMouseMove vtg v x y"
| "step vtg v MouseUp = onMouseUp v"
| "step vtg v (ClickNode node) = onClickNode v node"
| "step vtg v (EnterNode node) = (v, [CallSetFocusedNode (Some node)])"
| "step vtg v LeaveNode = (v, [CallSetFocusedNode None])"
| "step vtg v (SetDragEnabled b) = (v\<lparr>enableNodeDrag := b\<rparr>, [])"

fun run :: "(real \<times> real \<Rightarrow> real \<times> real) \<Rightarrow> viewer \<Rightarrow> event list \<Rightarrow> viewer \<times> emitted list" where
  "run vtg v [] = (v, [])"
| "run vtg v (ev # evs) =
     (case step vtg v ev of
        (v1, out1) \<Rightarrow> (case run vtg v1 evs of (v2, out2) \<Rightarrow> (v2, out1 @ out2)))"

text \<open>A pointer gesture on a node: down, the moves, up, and the click the renderer reports.\<close>

definition gesture :: "string \<Rightarrow> real \<times> real \<Rightarrow> (real \<times> real) list \<Rightarrow> event list" where
  "gesture node p moves =
     DownNode node (fst p) (snd p) # map (\<lambda>m. MouseMoveBody (fst m) (snd m)) moves @
     [MouseUp, ClickNode node]"

definition breach :: "real \<times> real \<Rightarrow> real \<times> real \<Rightarrow> bool" where
  "breach p m =
     ((fst m - fst p) * (fst m - fst p) + (snd m - snd p) * (snd m - snd p)
        > DRAG_CLICK_EPS * DRAG_CLICK_EPS)"


section \<open>The properties panel: what is inspected\<close>

datatype relationship = Relationship string string pval

datatype element =
  NodeElement raw_node nat "relationship list"
| EdgeElement raw_edge string "raw_node option" "raw_node option"

definition toNodeLabel :: "raw_node \<Rightarrow> pval" where
  "toNodeLabel n =
     (case n_properties n of
        None \<Rightarrow> PStr (n_id n)
      | Some p \<Rightarrow> (case p ''entity_id'' of None \<Rightarrow> PStr (n_id n) | Some v \<Rightarrow> v))"

fun relationshipsOf ::
  "sigma_graph \<Rightarrow> raw_graph \<Rightarrow> string \<Rightarrow> edge_data list \<Rightarrow> relationship list" where
  "relationshipsOf g rg nodeId [] = []"
| "relationshipsOf g rg nodeId (e # es) =
     (let isOut = (ea_source (ed_attrs e) = nodeId);
          neighborId = (if isOut then ea_target (ed_attrs e) else ea_source (ed_attrs e))
      in if \<not> hasNode g neighborId then relationshipsOf g rg nodeId es
         else
           (case getNode rg neighborId of
              None \<Rightarrow> relationshipsOf g rg nodeId es
            | Some neighbor \<Rightarrow>
                Relationship (if isOut then ''Out'' else ''In'') neighborId (toNodeLabel neighbor)
                  # relationshipsOf g rg nodeId es))"

definition refineNodeProperties :: "graph_store \<Rightarrow> string \<Rightarrow> element option" where
  "refineNodeProperties st nodeId =
     (case (sigmaGraph st, rawGraph st) of
        (Some g, Some rg) \<Rightarrow>
          if \<not> hasNode g nodeId then None
          else
            (case getNode rg nodeId of
               None \<Rightarrow> None
             | Some n \<Rightarrow>
                 Some (NodeElement n (degree g nodeId)
                         (relationshipsOf g rg nodeId (edgesOfNode g nodeId))))
      | _ \<Rightarrow> None)"

definition refineEdgeProperties :: "graph_store \<Rightarrow> string \<Rightarrow> element option" where
  "refineEdgeProperties st edgeKeyOrDyn =
     (case (sigmaGraph st, rawGraph st) of
        (Some g, Some rg) \<Rightarrow>
          if \<not> hasEdge g edgeKeyOrDyn then None
          else
            (case getEdge rg edgeKeyOrDyn True of
               None \<Rightarrow> None
             | Some base \<Rightarrow>
                 Some (EdgeElement base edgeKeyOrDyn
                         (if hasNode g (e_source base) then getNode rg (e_source base) else None)
                         (if hasNode g (e_target base) then getNode rg (e_target base) else None)))
      | _ \<Rightarrow> None)"

text \<open>\<open>resolveCurrent\<close> sets \<open>currentType\<close> and \<open>currentElement\<close>; the pair is its result.\<close>

definition resolveCurrent :: "graph_store \<Rightarrow> string option \<times> element option" where
  "resolveCurrent st =
     (case nonEmpty (focusedNode st) of
        Some n \<Rightarrow> (Some ''node'', refineNodeProperties st n)
      | None \<Rightarrow>
          (case nonEmpty (selectedNode st) of
             Some n \<Rightarrow> (Some ''node'', refineNodeProperties st n)
           | None \<Rightarrow>
               (case nonEmpty (focusedEdge st) of
                  Some e \<Rightarrow> (Some ''edge'', refineEdgeProperties st e)
                | None \<Rightarrow>
                    (case nonEmpty (selectedEdge st) of
                       Some e \<Rightarrow> (Some ''edge'', refineEdgeProperties st e)
                     | None \<Rightarrow> (None, None)))))"

text \<open>
  The precedence as the specification words it: of the four references, in the order
  focused node, selected node, focused edge, selected edge, the first non-empty one.
\<close>

fun spec_firstNonEmpty :: "(string \<times> string option) list \<Rightarrow> (string \<times> string) option" where
  "spec_firstNonEmpty [] = None"
| "spec_firstNonEmpty ((kind, r) # rs) =
     (case r of
        None \<Rightarrow> spec_firstNonEmpty rs
      | Some k \<Rightarrow> if k = [] then spec_firstNonEmpty rs else Some (kind, k))"

definition spec_inspected :: "graph_store \<Rightarrow> (string \<times> string) option" where
  "spec_inspected st =
     spec_firstNonEmpty
       [(''node'', focusedNode st), (''node'', selectedNode st),
        (''edge'', focusedEdge st), (''edge'', selectedEdge st)]"


section \<open>Sample records and environments\<close>

text \<open>A freshly loaded node: its \<open>entity_id\<close> property is its id.\<close>

definition node_of :: "string \<Rightarrow> raw_node" where
  "node_of i = \<lparr>n_id = i, n_labels = None, n_properties = Some [''entity_id'' \<mapsto> PStr i],
     n_x = None, n_y = None, n_size = None, n_color = None\<rparr>"

text \<open>A node record that has an id and nothing else.\<close>

definition bare_node :: "string \<Rightarrow> raw_node" where
  "bare_node i = \<lparr>n_id = i, n_labels = None, n_properties = None,
     n_x = None, n_y = None, n_size = None, n_color = None\<rparr>"

definition edge_of ::
  "string option \<Rightarrow> string option \<Rightarrow> string \<Rightarrow> string \<Rightarrow> props option \<Rightarrow> raw_edge" where
  "edge_of i d s t p = \<lparr>e_id = i, e_dynamicId = d, e_source = s, e_target = t, e_type = None,
     e_properties = p\<rparr>"

text \<open>An environment whose backend answers every request with \<open>resp\<close>.\<close>

definition answering :: "env \<Rightarrow> response \<Rightarrow> env" where
  "answering env resp = env\<lparr>queryGraph := \<lambda>k. Inr resp\<rparr>"

definition env0 :: env where
  "env0 = \<lparr>queryGraph = \<lambda>k. Inl (ApiError ''offline''), math_random = \<lambda>k. 0,
     string_to_number = \<lambda>s. None, instanceId = 0\<rparr>"

text \<open>The edge size as the specification words it, for a given floor and ceiling.\<close>

definition spec_edgeSize :: "real \<Rightarrow> real \<Rightarrow> real \<Rightarrow> real" where
  "spec_edgeSize minEdgeSize maxSize w = min maxSize (max minEdgeSize (1 + w * 1.5))"


text \<open>The store after one successful load of the given records, from the initial state.\<close>

definition loaded :: "raw_node list \<Rightarrow> raw_edge list \<Rightarrow> graph_store" where
  "loaded ns es = snd (fetchGraph (answering env0 (RespGraph ns es)) initial_store)"

text \<open>The store after \<open>updateNodeAndSelect(a, a, 'entity_id', b)\<close>: node \<open>a\<close> renamed to \<open>b\<close>.\<close>

definition renamed :: "string \<Rightarrow> string \<Rightarrow> graph_store \<Rightarrow> graph_store" where
  "renamed a b st = snd (updateNodeAndSelect a a ''entity_id'' b st)"

text \<open>Views of a store: what the canonical and the render graph hold.\<close>

definition rawNodeIds :: "graph_store \<Rightarrow> string list" where
  "rawNodeIds st = (case rawGraph st of None \<Rightarrow> [] | Some rg \<Rightarrow> map n_id (nodes rg))"

definition endpoints :: "graph_store \<Rightarrow> (string \<times> string) list" where
  "endpoints st =
     (case rawGraph st of
        None \<Rightarrow> []
      | Some rg \<Rightarrow> map (\<lambda>e. (e_source e, e_target e)) (edges rg))"

definition dynamicIndex :: "graph_store \<Rightarrow> string \<Rightarrow> nat option" where
  "dynamicIndex st k = (case rawGraph st of None \<Rightarrow> None | Some rg \<Rightarrow> edgeDynamicIdMap rg k)"

definition renderEdges :: "graph_store \<Rightarrow> (string \<times> string \<times> string) list" where
  "renderEdges st =
     (case sigmaGraph st of
        None \<Rightarrow> []
      | Some g \<Rightarrow> map (\<lambda>e. (ed_key e, ed_source e, ed_target e)) (g_edges g))"

definition renderSizes :: "graph_store \<Rightarrow> real option list" where
  "renderSizes st =
     (case sigmaGraph st of
        None \<Rightarrow> []
      | Some g \<Rightarrow> map (\<lambda>d. ea_size (ed_attrs d)) (g_edges g))"

text \<open>The render graph with the label of node \<open>nodeId\<close> set.\<close>

definition setLabel :: "sigma_graph \<Rightarrow> string \<Rightarrow> string \<Rightarrow> sigma_graph" where
  "setLabel g nodeId v =
     g\<lparr>g_nodes :=
         map (\<lambda>(k, a). if k = nodeId then (k, a\<lparr>na_label := PStr v\<rparr>) else (k, a)) (g_nodes g)\<rparr>"

text \<open>Where the viewer's graph has node \<open>n\<close>.\<close>

definition positionOf :: "viewer \<Rightarrow> string \<Rightarrow> (real \<times> real) option" where
  "positionOf v n =
     (case currentGraph v of
        None \<Rightarrow> None
      | Some g \<Rightarrow> map_option (\<lambda>a. (na_x a, na_y a)) (getNodeAttributes g n))"

text \<open>The viewer is in the middle of a gesture on node \<open>n\<close> that started at \<open>p\<close>.\<close>

definition dragging :: "viewer \<Rightarrow> string \<Rightarrow> real \<times> real \<Rightarrow> bool" where
  "dragging v n p =
     (enableNodeDrag v \<and> sigma v \<and> isDragging v \<and> draggedNode v = Some n \<and> dragStart v = p \<and>
      (case currentGraph v of None \<Rightarrow> False | Some g \<Rightarrow> hasNode g n))"

definition viewer0 :: viewer where
  "viewer0 = initial_viewer (sigmaGraph (loaded [node_of ''1''] []))"


section \<open>Facts about the model\<close>

lemmas model_defs =
  fetchGraph_def answering_def env0_def initial_store_def normalizeGraphResponse_def
  buildSigmaGraph_def buildRawGraph_def buildDynamicMap_def new_RawGraph_def
  new_MultiDirectedGraph_def addNode_def addEdgeWithKey_def hasNode_def hasEdge_def order_def
  incrementGraphDataVersion_def node_of_def edge_of_def nodeAttrs_def edgeAttrs_def edgeKey_def
  keyOf_def edgeSize_def edgeWeight_def toNumber_def fetchFailed_def
  updateNodeAndSelect_def renameNode_def updateProperty_def renameRawNode_def
  getNodeAttributes_def addEdge_def dropEdge_def dropNode_def edgesOfNode_def
  setSelectedNode_def updateNodeAttrs_def geid_def Let_def

lemmas view_defs =
  loaded_def renamed_def rawNodeIds_def endpoints_def dynamicIndex_def renderEdges_def
  renderSizes_def

lemma show_nat_0: "show_nat 0 = ''0''"
  by (simp add: show_nat.simps)

lemma hasNode_attrs: "hasNode g k \<Longrightarrow> \<exists>a. getNodeAttributes g k = Some a"
  unfolding hasNode_def getNodeAttributes_def
  by (metis list.set_map map_of_eq_None_iff not_Some_eq)

lemma map_of_update_key:
  "map_of (map (\<lambda>(k', a). if k' = k then (k', f a) else (k', a)) xs) k = map_option f (map_of xs k)"
  by (induction xs) auto

lemma updateNodeAttrs_ok:
  assumes "hasNode g n"
  shows "\<exists>g'. updateNodeAttrs g n f = Inr g' \<and> hasNode g' n \<and>
           getNodeAttributes g' n = map_option f (getNodeAttributes g n)"
proof -
  let ?g' = "g\<lparr>g_nodes := map (\<lambda>(k', a). if k' = n then (k', f a) else (k', a)) (g_nodes g)\<rparr>"
  have 1: "updateNodeAttrs g n f = Inr ?g'"
    using assms by (simp add: updateNodeAttrs_def)
  have "map fst (map (\<lambda>(k', a). if k' = n then (k', f a) else (k', a)) (g_nodes g)) =
        map fst (g_nodes g)"
    by (induction "g_nodes g") (auto split: prod.splits)
  then have 2: "hasNode ?g' n"
    using assms by (simp add: hasNode_def)
  have 3: "getNodeAttributes ?g' n = map_option f (getNodeAttributes g n)"
    by (simp add: getNodeAttributes_def map_of_update_key)
  from 1 2 3 show ?thesis by blast
qed

subsection \<open>Sizes\<close>

lemma nodeSize_lower: "1 \<le> nodeSize d"
  by (simp add: nodeSize_def)

lemma nodeSize_upper: "nodeSize d \<le> 40"
  by (simp add: nodeSize_def)

lemma nodeSize_mono: "d \<le> d' \<Longrightarrow> nodeSize d \<le> nodeSize d'"
proof -
  assume le: "d \<le> d'"
  have "log 2 (1 + real d) \<le> log 2 (1 + real d')"
    using le by simp
  then show ?thesis
    unfolding nodeSize_def by (intro max.mono min.mono) simp_all
qed

lemma nodeSize_0: "nodeSize 0 = 5"
  by (simp add: nodeSize_def)

lemma nodeSize_1: "nodeSize (Suc 0) = 9"
  by (simp add: nodeSize_def)

lemma degree_sizeByDegree: "degree (sizeByDegree g) n = degree g n"
  by (simp add: sizeByDegree_def degree_def)

lemma size_after_pass:
  "(n, a) \<in> set (g_nodes (sizeByDegree g)) \<Longrightarrow> na_size a = nodeSize (degree g n)"
  by (auto simp: sizeByDegree_def order_def split: if_splits)

text \<open>Running the pass twice gives what running it once gives.\<close>

lemma sizeByDegree_idem: "sizeByDegree (sizeByDegree g) = sizeByDegree g"
  by (simp add: sizeByDegree_def order_def degree_def case_prod_unfold comp_def)

subsection \<open>Loading\<close>

lemma addNodes_edges: "addNodes env i ns g = Inr g' \<Longrightarrow> g_edges g' = g_edges g"
  by (induction ns arbitrary: i g) (auto simp: addNode_def split: sum.splits if_splits)

lemma addEdges_sizes:
  "addEdges env i es g = Inr g' \<Longrightarrow>
   map (\<lambda>d. ea_size (ed_attrs d)) (g_edges g') =
   map (\<lambda>d. ea_size (ed_attrs d)) (g_edges g) @ map (edgeSize env) es"
  by (induction es arbitrary: i g)
     (auto simp: addEdgeWithKey_def edgeAttrs_def split: sum.splits if_splits)

lemma buildSigmaGraph_sizes:
  "buildSigmaGraph env rg = Inr g \<Longrightarrow>
   map (\<lambda>d. ea_size (ed_attrs d)) (g_edges g) = map (edgeSize env) (edges rg)"
  by (auto simp: buildSigmaGraph_def new_MultiDirectedGraph_def split: sum.splits
      dest!: addNodes_edges addEdges_sizes)

lemma fetchGraph_ok:
  "fetchGraph env st = (None, st') \<Longrightarrow>
   \<exists>rg g. rawGraph st' = Some rg \<and> sigmaGraph st' = Some g \<and> buildSigmaGraph env rg = Inr g"
  by (auto simp: fetchGraph_def Let_def fetchFailed_def incrementGraphDataVersion_def
      split: sum.splits prod.splits)

lemma load_one:
  "fetchGraph (answering env (RespGraph [node_of ''1''] [])) st =
   (None, st\<lparr>isFetching := False, graphDataFetchAttempted := True, requests := requests st + 1,
      rawGraph := Some (buildRawGraph [node_of ''1''] []),
      sigmaGraph := Some
        \<lparr>g_nodes = [(''1'', nodeAttrs (answering env (RespGraph [node_of ''1''] [])) 0
                             (node_of ''1''))],
         g_edges = [], g_instance = instanceId env, g_edgeId = 0\<rparr>,
      graphIsEmpty := False, graphDataVersion := graphDataVersion st + 1,
      lastSuccessfulQueryLabel := ''*''\<rparr>)"
  by (simp add: fetchGraph_def answering_def normalizeGraphResponse_def buildSigmaGraph_def
      buildRawGraph_def buildDynamicMap_def new_RawGraph_def new_MultiDirectedGraph_def
      addNode_def hasNode_def order_def incrementGraphDataVersion_def node_of_def)

subsection \<open>Pointer gestures\<close>

lemma run_append:
  "run vtg v (xs @ ys) =
     (case run vtg v xs of (v1, o1) \<Rightarrow> (case run vtg v1 ys of (v2, o2) \<Rightarrow> (v2, o1 @ o2)))"
  by (induction xs arbitrary: v) (auto split: prod.splits)

lemma onDownNode_dragging:
  assumes "enableNodeDrag v" and "sigma v" and "currentGraph v = Some g" and "hasNode g n"
  shows "\<exists>v'. onDownNode v n x y = (v', []) \<and> dragging v' n (x, y) \<and> \<not> dragMoved v'"
proof -
  obtain g1 where "updateNodeAttrs g n (\<lambda>a. a\<lparr>na_highlighted := True\<rparr>) = Inr g1" "hasNode g1 n"
    using updateNodeAttrs_ok [OF assms(4)] by blast
  then show ?thesis
    using assms by (simp add: onDownNode_def dragging_def)
qed

lemma onMouseMove_dragging:
  assumes "dragging v n p" and "n \<noteq> []"
  shows "\<exists>v'. onMouseMove vtg v x y = (v', []) \<and> dragging v' n p \<and>
           dragMoved v' = (dragMoved v \<or> breach p (x, y)) \<and>
           positionOf v' n = Some (vtg (x, y))"
proof -
  from assms(1) obtain g where g: "currentGraph v = Some g" "hasNode g n"
    by (auto simp: dragging_def split: option.splits)
  obtain g1 where g1:
      "updateNodeAttrs g n (\<lambda>a. a\<lparr>na_x := fst (vtg (x, y))\<rparr>) = Inr g1" "hasNode g1 n"
      "getNodeAttributes g1 n =
         map_option (\<lambda>a. a\<lparr>na_x := fst (vtg (x, y))\<rparr>) (getNodeAttributes g n)"
    using updateNodeAttrs_ok [OF g(2)] by blast
  obtain g2 where g2:
      "updateNodeAttrs g1 n (\<lambda>a. a\<lparr>na_y := snd (vtg (x, y))\<rparr>) = Inr g2" "hasNode g2 n"
      "getNodeAttributes g2 n =
         map_option (\<lambda>a. a\<lparr>na_y := snd (vtg (x, y))\<rparr>) (getNodeAttributes g1 n)"
    using updateNodeAttrs_ok [OF g1(2)] by blast
  obtain a where a: "getNodeAttributes g n = Some a"
    using hasNode_attrs [OF g(2)] by blast
  show ?thesis
    using assms g g1 g2 a
    by (auto simp: onMouseMove_def dragging_def nonEmpty_def Let_def breach_def positionOf_def)
qed

lemma moves_dragging:
  assumes "dragging v n p" and "n \<noteq> []"
  shows "\<exists>v'. run vtg v (map (\<lambda>m. MouseMoveBody (fst m) (snd m)) ms) = (v', []) \<and>
           dragging v' n p \<and>
           dragMoved v' = (dragMoved v \<or> (\<exists>m\<in>set ms. breach p m)) \<and>
           positionOf v' n = (if ms = [] then positionOf v n else Some (vtg (last ms)))"
  using assms(1)
proof (induction ms arbitrary: v)
  case Nil
  then show ?case by simp
next
  case (Cons m ms)
  obtain v1 where v1: "onMouseMove vtg v (fst m) (snd m) = (v1, [])" "dragging v1 n p"
      "dragMoved v1 = (dragMoved v \<or> breach p m)" "positionOf v1 n = Some (vtg m)"
    using onMouseMove_dragging [OF Cons.prems assms(2), of vtg "fst m" "snd m"] by auto
  obtain v' where v': "run vtg v1 (map (\<lambda>m. MouseMoveBody (fst m) (snd m)) ms) = (v', [])"
      "dragging v' n p" "dragMoved v' = (dragMoved v1 \<or> (\<exists>m\<in>set ms. breach p m))"
      "positionOf v' n = (if ms = [] then positionOf v1 n else Some (vtg (last ms)))"
    using Cons.IH [OF v1(2)] by blast
  show ?case
    using v1 v' by auto
qed

lemma up_click_dragging:
  assumes "dragging v n p" and "n \<noteq> []"
  shows "\<exists>v'. run vtg v [MouseUp, ClickNode n] =
                (v', if dragMoved v then [] else [CallSetSelectedNode n]) \<and>
              positionOf v' n = positionOf v n"
proof -
  from assms(1) obtain g where g: "currentGraph v = Some g" "hasNode g n"
    by (auto simp: dragging_def split: option.splits)
  obtain g1 where g1: "updateNodeAttrs g n (\<lambda>a. a\<lparr>na_highlighted := False\<rparr>) = Inr g1"
      "getNodeAttributes g1 n =
         map_option (\<lambda>a. a\<lparr>na_highlighted := False\<rparr>) (getNodeAttributes g n)"
    using updateNodeAttrs_ok [OF g(2)] by blast
  obtain a where a: "getNodeAttributes g n = Some a"
    using hasNode_attrs [OF g(2)] by blast
  show ?thesis
    using assms g g1 a
    by (simp add: onMouseUp_def onClickNode_def dragging_def nonEmpty_def positionOf_def)
qed


subsection \<open>Generated edge keys\<close>

text \<open>
  The decimal rendering is injective, so the candidates of the key generator are pairwise
  different and the bound given to its loop is enough: the key \<open>addEdge\<close> generates is
  not a key of the graph.
\<close>

lemma digit_inj:
  assumes "a < 10" and "b < 10" and "''0123456789'' ! a = ''0123456789'' ! b"
  shows "a = (b::nat)"
proof -
  have d: "distinct ''0123456789''" by simp
  have "length ''0123456789'' = 10" by simp
  then show ?thesis using assms d nth_eq_iff_index_eq [of "''0123456789''" a b] by simp
qed

lemma show_nat_nonempty: "show_nat n \<noteq> []"
  by (subst show_nat.simps) simp

lemma show_nat_inj: "show_nat a = show_nat b \<Longrightarrow> a = b"
proof (induction a arbitrary: b rule: show_nat.induct)
  case (1 n)
  show ?case
  proof (cases "n < 10")
    case True
    note n = True
    show ?thesis
    proof (cases "b < 10")
      case True
      then show ?thesis using n "1.prems" digit_inj [of n b] by (simp add: show_nat.simps [of n] show_nat.simps [of b])
    next
      case False
      then have "length (show_nat b) \<ge> 2"
        using show_nat_nonempty [of "b div 10"]
        by (subst show_nat.simps) (simp add: Suc_le_eq)
      moreover have "length (show_nat n) = 1" using n by (subst show_nat.simps) simp
      ultimately show ?thesis using "1.prems" by simp
    qed
  next
    case False
    note n = False
    show ?thesis
    proof (cases "b < 10")
      case True
      have "length (show_nat n) \<ge> 2"
        using n show_nat_nonempty [of "n div 10"]
        by (subst show_nat.simps) (simp add: Suc_le_eq)
      moreover have "length (show_nat b) = 1" using True by (subst show_nat.simps) simp
      ultimately show ?thesis using "1.prems" by simp
    next
      case False
      have "show_nat (n div 10) @ [''0123456789'' ! (n mod 10)] =
            show_nat (b div 10) @ [''0123456789'' ! (b mod 10)]"
        using "1.prems" n False by (simp add: show_nat.simps [of n] show_nat.simps [of b])
      then have e: "show_nat (n div 10) = show_nat (b div 10)"
        "''0123456789'' ! (n mod 10) = ''0123456789'' ! (b mod 10)" by simp_all
      have "n div 10 = b div 10" using "1.IH" [OF n e(1)] .
      moreover have "n mod 10 = b mod 10" using digit_inj [OF _ _ e(2)] by simp
      ultimately show ?thesis by (metis div_mult_mod_eq)
    qed
  qed
qed

lemma geid_inj: "geid inst a = geid inst b \<Longrightarrow> a = b"
  by (simp add: geid_def show_nat_inj)

lemma used_finite: "finite {m. geid inst m \<in> set ks}"
proof -
  have "inj (geid inst)" by (rule injI) (rule geid_inj)
  then have "finite (geid inst -` set ks)" by (intro finite_vimageI) simp_all
  then show ?thesis by (simp add: vimage_def)
qed

lemma used_card: "card {m. geid inst m \<in> set ks} \<le> length ks"
proof -
  have "inj_on (geid inst) {m. geid inst m \<in> set ks}" by (rule inj_onI) (rule geid_inj)
  then have "card (geid inst ` {m. geid inst m \<in> set ks}) = card {m. geid inst m \<in> set ks}"
    by (rule card_image)
  moreover have "card (geid inst ` {m. geid inst m \<in> set ks}) \<le> card (set ks)"
    by (intro card_mono) auto
  ultimately show ?thesis using card_length [of ks] by linarith
qed

lemma edgeKeyGenerator_fresh_aux:
  "card {m. n \<le> m \<and> geid inst m \<in> set ks} \<le> fuel \<Longrightarrow>
   geid inst (edgeKeyGenerator fuel ks inst n) \<notin> set ks \<and> n \<le> edgeKeyGenerator fuel ks inst n"
proof (induction fuel arbitrary: n)
  case 0
  have f: "finite {m. n \<le> m \<and> geid inst m \<in> set ks}"
    by (rule finite_subset [OF _ used_finite [of inst ks]]) auto
  with 0 have "{m. n \<le> m \<and> geid inst m \<in> set ks} = {}" by simp
  then show ?case by auto
next
  case (Suc fuel)
  show ?case
  proof (cases "geid inst n \<in> set ks")
    case True
    have f: "finite {m. n \<le> m \<and> geid inst m \<in> set ks}"
      by (rule finite_subset [OF _ used_finite [of inst ks]]) auto
    have "{m. Suc n \<le> m \<and> geid inst m \<in> set ks} = {m. n \<le> m \<and> geid inst m \<in> set ks} - {n}"
      by auto
    moreover have "n \<in> {m. n \<le> m \<and> geid inst m \<in> set ks}" using True by simp
    ultimately have "card {m. Suc n \<le> m \<and> geid inst m \<in> set ks} \<le> fuel"
      using Suc.prems f by (simp add: card_Diff_singleton)
    from Suc.IH [OF this] show ?thesis using True by simp
  next
    case False
    then show ?thesis by simp
  qed
qed

lemma edgeKeyGenerator_fresh:
  "geid inst (edgeKeyGenerator (length ks) ks inst n) \<notin> set ks"
proof -
  have "card {m. n \<le> m \<and> geid inst m \<in> set ks} \<le> card {m. geid inst m \<in> set ks}"
    by (intro card_mono used_finite) auto
  then have "card {m. n \<le> m \<and> geid inst m \<in> set ks} \<le> length ks"
    using used_card [of inst ks] by linarith
  then show ?thesis using edgeKeyGenerator_fresh_aux by blast
qed

lemma addEdge_fresh_key:
  assumes "addEdge g src tgt a = Inr (key, g')"
  shows "\<not> hasEdge g key \<and> hasEdge g' key"
proof -
  let ?ks = "map ed_key (g_edges g)"
  have k: "key = geid (g_instance g) (edgeKeyGenerator (length ?ks) ?ks (g_instance g) (g_edgeId g))"
    and g': "hasEdge g' key"
    using assms by (auto simp: addEdge_def hasEdge_def Let_def split: if_splits)
  have "key \<notin> set ?ks"
    unfolding k by (rule edgeKeyGenerator_fresh)
  then show ?thesis
    using g' by (simp add: hasEdge_def)
qed

subsection \<open>Loading builds the two graphs over the same keys\<close>

lemma addNodes_keys:
  "addNodes env i ns g = Inr g' \<Longrightarrow> map fst (g_nodes g') = map fst (g_nodes g) @ map n_id ns"
  by (induction ns arbitrary: i g) (auto simp: addNode_def split: sum.splits if_splits)

lemma addEdges_nodes: "addEdges env i es g = Inr g' \<Longrightarrow> g_nodes g' = g_nodes g"
  by (induction es arbitrary: i g) (auto simp: addEdgeWithKey_def split: sum.splits if_splits)

lemma addEdges_keys:
  "addEdges env i es g = Inr g' \<Longrightarrow>
   map ed_key (g_edges g') = map ed_key (g_edges g) @ map edgeKey es"
  by (induction es arbitrary: i g) (auto simp: addEdgeWithKey_def split: sum.splits if_splits)

lemma buildSigmaGraph_keys:
  assumes "buildSigmaGraph env rg = Inr g"
  shows "map fst (g_nodes g) = map n_id (nodes rg) \<and> map ed_key (g_edges g) = map edgeKey (edges rg)"
proof -
  obtain g0 where g0: "addNodes env 0 (nodes rg) (new_MultiDirectedGraph (instanceId env)) = Inr g0"
      "addEdges env 0 (edges rg) g0 = Inr g"
    using assms by (auto simp: buildSigmaGraph_def split: sum.splits)
  have "map fst (g_nodes g0) = map n_id (nodes rg)" "g_edges g0 = []"
    using addNodes_keys [OF g0(1)] addNodes_edges [OF g0(1)]
    by (simp_all add: new_MultiDirectedGraph_def)
  then show ?thesis
    using addEdges_nodes [OF g0(2)] addEdges_keys [OF g0(2)] by simp
qed

subsection \<open>Renaming a node of a graph loaded without dynamic ids\<close>

text \<open>
  \<open>fetchGraph\<close> gives no render edge a \<open>dynamicId\<close> attribute and indexes a raw edge
  without \<open>dynamicId\<close> under the key \<open>undefined\<close>. When no raw edge of the response has
  a \<open>dynamicId\<close> and no render key is \<open>undefined\<close>, the rename finds no raw edge to
  update: whatever node is renamed, the raw edges stay as they were loaded.
\<close>

lemma dynamicMapFrom_dom:
  "dom (dynamicMapFrom i es m) = dom m \<union> (\<lambda>e. keyOf (e_dynamicId e)) ` set es"
  by (induction es arbitrary: i m) auto

lemma buildRawGraph_fields:
  "nodes (buildRawGraph ns es) = ns" "edges (buildRawGraph ns es) = es"
  "edgeDynamicIdMap (buildRawGraph ns es) = dynamicMapFrom 0 es Map.empty"
  by (simp_all add: buildRawGraph_def buildDynamicMap_def new_RawGraph_def)

lemma fetchGraph_ok_raw:
  assumes "fetchGraph env st = (None, st')"
  shows "\<exists>ns es g. rawGraph st' = Some (buildRawGraph ns es) \<and> sigmaGraph st' = Some g \<and>
     buildSigmaGraph env (buildRawGraph ns es) = Inr g"
proof (cases "queryGraph env (requests st)")
  case (Inl err)
  then show ?thesis
    using assms by (simp add: fetchGraph_def fetchFailed_def)
next
  case (Inr resp)
  obtain ns es where n: "normalizeGraphResponse resp = (ns, es)"
    by (cases "normalizeGraphResponse resp")
  show ?thesis
  proof (cases "buildSigmaGraph env (buildRawGraph ns es)")
    case (Inl err)
    then show ?thesis
      using assms Inr n by (simp add: fetchGraph_def fetchFailed_def)
  next
    case (Inr g)
    then have "rawGraph st' = Some (buildRawGraph ns es) \<and> sigmaGraph st' = Some g"
      using assms \<open>queryGraph env (requests st) = Inr resp\<close> n
      by (auto simp: fetchGraph_def incrementGraphDataVersion_def)
    then show ?thesis
      using Inr by blast
  qed
qed

lemma addEdges_dynamicIds:
  "addEdges env i es g = Inr g' \<Longrightarrow>
   map (\<lambda>d. ea_dynamicId (ed_attrs d)) (g_edges g') =
   map (\<lambda>d. ea_dynamicId (ed_attrs d)) (g_edges g) @ replicate (length es) None"
  by (induction es arbitrary: i g)
     (auto simp: addEdgeWithKey_def edgeAttrs_def replicate_app_Cons_same
        split: sum.splits if_splits)

lemma buildSigmaGraph_no_dynamicId:
  assumes "buildSigmaGraph env rg = Inr g" and "d \<in> set (g_edges g)"
  shows "ea_dynamicId (ed_attrs d) = None"
proof -
  obtain g0 where g0: "addNodes env 0 (nodes rg) (new_MultiDirectedGraph (instanceId env)) = Inr g0"
      "addEdges env 0 (edges rg) g0 = Inr g"
    using assms(1) by (auto simp: buildSigmaGraph_def split: sum.splits)
  have "g_edges g0 = []"
    using addNodes_edges [OF g0(1)] by (simp add: new_MultiDirectedGraph_def)
  then have "map (\<lambda>d. ea_dynamicId (ed_attrs d)) (g_edges g) = replicate (length (edges rg)) None"
    using addEdges_dynamicIds [OF g0(2)] by simp
  moreover have "ea_dynamicId (ed_attrs d) \<in> set (map (\<lambda>d. ea_dynamicId (ed_attrs d)) (g_edges g))"
    using assms(2) by simp
  ultimately show ?thesis
    by simp
qed

lemma rewire_no_updates:
  "\<forall>e\<in>set es. ea_dynamicId (ed_attrs e) = None \<and> dm (ed_key e) = None \<Longrightarrow>
   snd (snd (rewire nodeId newId dm es g ups)) = ups"
  by (induction es arbitrary: g ups) (auto simp: Let_def split: sum.splits prod.splits)

lemma edgesOfNode_subset: "set (edgesOfNode g k) \<subseteq> set (g_edges g)"
  by (auto simp: edgesOfNode_def)

lemma renameNode_ok:
  assumes "renameNode nodeId newId g rg st = (None, st')"
  shows "\<exists>a g1 g2 ups g3 rg1.
      getNodeAttributes g nodeId = Some a \<and>
      addNode g newId (a\<lparr>na_label := PStr newId\<rparr>) = Inr g1 \<and>
      rewire nodeId newId (edgeDynamicIdMap rg) (edgesOfNode g1 nodeId) g1 [] = (None, g2, ups) \<and>
      dropNode g2 nodeId = Inr g3 \<and>
      renameRawNode nodeId newId rg = (None, rg1) \<and>
      st' = setSelectedNode (Some newId)
              (st\<lparr>sigmaGraph := Some g3, rawGraph := Some (updateRawEdges nodeId newId ups rg1)\<rparr>)"
proof (cases "getNodeAttributes g nodeId")
  case None
  then show ?thesis using assms by (simp add: renameNode_def)
next
  case (Some a)
  note a = Some
  show ?thesis
  proof (cases "addNode g newId (a\<lparr>na_label := PStr newId\<rparr>)")
    case (Inl err)
    then show ?thesis using assms a by (simp add: renameNode_def)
  next
    case (Inr g1)
    note g1 = Inr
    obtain err g2 ups where w:
      "rewire nodeId newId (edgeDynamicIdMap rg) (edgesOfNode g1 nodeId) g1 [] = (err, g2, ups)"
      by (metis prod_cases3)
    show ?thesis
    proof (cases err)
      case (Some e)
      then show ?thesis using assms a g1 w by (simp add: renameNode_def)
    next
      case None
      note err = None
      show ?thesis
      proof (cases "dropNode g2 nodeId")
        case (Inl e)
        then show ?thesis using assms a g1 w err by (simp add: renameNode_def)
      next
        case (Inr g3)
        note g3 = Inr
        obtain e2 rg1 where rr: "renameRawNode nodeId newId rg = (e2, rg1)"
          by (cases "renameRawNode nodeId newId rg")
        show ?thesis
        proof (cases e2)
          case (Some e)
          then show ?thesis using assms a g1 w err g3 rr by (simp add: renameNode_def)
        next
          case None
          then have "st' = setSelectedNode (Some newId)
              (st\<lparr>sigmaGraph := Some g3, rawGraph := Some (updateRawEdges nodeId newId ups rg1)\<rparr>)"
            using assms a g1 w err g3 rr by (simp add: renameNode_def)
          then show ?thesis using a g1 w err g3 rr None by blast
        qed
      qed
    qed
  qed
qed

lemma renameRawNode_edges: "renameRawNode nodeId newId rg = (err, rg1) \<Longrightarrow> edges rg1 = edges rg"
  by (auto simp: renameRawNode_def Let_def split: option.splits if_splits)

lemma rename_without_dynamicId:
  assumes st: "sigmaGraph st = Some g" "rawGraph st = Some rg"
    and g: "\<forall>d\<in>set (g_edges g). ea_dynamicId (ed_attrs d) = None \<and> edgeDynamicIdMap rg (ed_key d) = None"
    and ok: "updateNodeAndSelect nodeId nodeId ''entity_id'' newId st = (None, st')"
  shows "map_option edges (rawGraph st') = Some (edges rg)"
proof (cases "hasNode g nodeId")
  case False
  then show ?thesis using st ok by (simp add: updateNodeAndSelect_def)
next
  case True
  have r: "renameNode nodeId newId g rg st = (None, st')"
  proof (cases "renameNode nodeId newId g rg st")
    case (Pair e s)
    then show ?thesis using st ok True by (cases e) (simp_all add: updateNodeAndSelect_def)
  qed
  from renameNode_ok [OF r] obtain a g1 g2 ups g3 rg1 where h:
      "addNode g newId (a\<lparr>na_label := PStr newId\<rparr>) = Inr g1"
      "rewire nodeId newId (edgeDynamicIdMap rg) (edgesOfNode g1 nodeId) g1 [] = (None, g2, ups)"
      "renameRawNode nodeId newId rg = (None, rg1)"
      "st' = setSelectedNode (Some newId)
              (st\<lparr>sigmaGraph := Some g3, rawGraph := Some (updateRawEdges nodeId newId ups rg1)\<rparr>)"
    by blast
  have e1: "g_edges g1 = g_edges g"
    using h(1) by (auto simp: addNode_def split: if_splits)
  have "\<forall>e\<in>set (edgesOfNode g1 nodeId).
      ea_dynamicId (ed_attrs e) = None \<and> edgeDynamicIdMap rg (ed_key e) = None"
    using g e1 edgesOfNode_subset [of g1 nodeId] by auto
  then have "snd (snd (rewire nodeId newId (edgeDynamicIdMap rg) (edgesOfNode g1 nodeId) g1 [])) = []"
    by (rule rewire_no_updates)
  then have ups: "ups = []" using h(2) by simp
  show ?thesis
    using h(4) ups renameRawNode_edges [OF h(3)] by (simp add: setSelectedNode_def)
qed

lemma dynamicMapFrom_none:
  "set (map e_dynamicId es) \<subseteq> {None} \<Longrightarrow> k \<noteq> ''undefined'' \<Longrightarrow> m k = None \<Longrightarrow>
   dynamicMapFrom i es m k = None"
  by (induction es arbitrary: i m) (simp_all add: keyOf_def)

lemma loaded_rename_keeps_raw_edges:
  assumes "fetchGraph env st0 = (None, st)" and "rawGraph st = Some rg"
    and nodyn: "set (map e_dynamicId (edges rg)) \<subseteq> {None}"
    and keys: "''undefined'' \<notin> set (map edgeKey (edges rg))"
    and "updateNodeAndSelect nodeId nodeId ''entity_id'' newId st = (None, st')"
  shows "map_option edges (rawGraph st') = Some (edges rg)"
proof -
  obtain ns es g where l: "rawGraph st = Some (buildRawGraph ns es)" "sigmaGraph st = Some g"
      "buildSigmaGraph env (buildRawGraph ns es) = Inr g"
    using fetchGraph_ok_raw [OF assms(1)] by blast
  have rg: "rg = buildRawGraph ns es"
    using l(1) assms(2) by simp
  have k: "map ed_key (g_edges g) = map edgeKey (edges rg)"
    using buildSigmaGraph_keys [OF l(3)] by (simp add: rg)
  have "\<forall>d\<in>set (g_edges g).
      ea_dynamicId (ed_attrs d) = None \<and> edgeDynamicIdMap rg (ed_key d) = None"
  proof
    fix d
    assume d: "d \<in> set (g_edges g)"
    then have "ed_key d \<in> set (map ed_key (g_edges g))"
      by simp
    then have "ed_key d \<noteq> ''undefined''"
      using keys unfolding k by metis
    then have "dynamicMapFrom 0 (edges rg) Map.empty (ed_key d) = None"
      using nodyn by (intro dynamicMapFrom_none) simp_all
    moreover have "edgeDynamicIdMap rg = dynamicMapFrom 0 (edges rg) Map.empty"
      by (simp add: rg buildRawGraph_fields)
    ultimately show "ea_dynamicId (ed_attrs d) = None \<and> edgeDynamicIdMap rg (ed_key d) = None"
      using buildSigmaGraph_no_dynamicId [OF l(3) d] by simp
  qed
  from rename_without_dynamicId [OF l(2) assms(2) this assms(5)] show ?thesis .
qed

section \<open>Claims\<close>

subsection \<open>Sizing by degree\<close>

text \<open>
  C8. After a size-by-degree pass over any graph, the size of every node lies between 0 and
  the maximum 40, and the size does not decrease when the degree grows: of two nodes, the
  one with the smaller or equal degree has the smaller or equal size.
\<close>

theorem sizeByDegree_bounds_mono:
  assumes "(n, a) \<in> set (g_nodes (sizeByDegree g))"
    and "(m, b) \<in> set (g_nodes (sizeByDegree g))"
  shows "0 \<le> na_size a \<and> na_size a \<le> 40 \<and>
    (degree (sizeByDegree g) n \<le> degree (sizeByDegree g) m \<longrightarrow> na_size a \<le> na_size b)"
proof -
  have a: "na_size a = nodeSize (degree g n)"
    using assms(1) by (rule size_after_pass)
  have b: "na_size b = nodeSize (degree g m)"
    using assms(2) by (rule size_after_pass)
  have "0 \<le> nodeSize (degree g n)"
    using nodeSize_lower [of "degree g n"] by linarith
  then show ?thesis
    using a b nodeSize_upper [of "degree g n"] nodeSize_mono [of "degree g n" "degree g m"]
    by (simp add: degree_sizeByDegree)
qed

text \<open>
  On the graph with the nodes 1, 2, 3 and one edge from 1 to 2: node 3 has degree 0 and
  size 5, node 1 has degree 1 and size 9.
\<close>

theorem sizeByDegree_bounds_mono_witness:
  "map_option (\<lambda>g. map (\<lambda>(n, a). (n, degree g n, na_size a)) (g_nodes (sizeByDegree g)))
     (sigmaGraph (loaded [node_of ''1'', node_of ''2'', node_of ''3'']
        [edge_of (Some ''e1'') None ''1'' ''2'' None])) =
     Some [(''1'', 1, 9), (''2'', 1, 9), (''3'', 0, 5)] \<and>
   (0::real) \<le> 5 \<and> (5::real) \<le> 40 \<and> (5::real) \<le> 9"
proof -
  define g where "g = \<lparr>g_nodes = [(''1'', nodeAttrs env0 0 (node_of ''1'')),
      (''2'', nodeAttrs env0 1 (node_of ''2'')), (''3'', nodeAttrs env0 2 (node_of ''3''))],
    g_edges = [\<lparr>ed_key = ''e1'', ed_source = ''1'', ed_target = ''2'',
      ed_attrs = edgeAttrs env0 0 (edge_of (Some ''e1'') None ''1'' ''2'' None)\<rparr>],
    g_instance = 0, g_edgeId = 0\<rparr>"
  have l: "sigmaGraph (loaded [node_of ''1'', node_of ''2'', node_of ''3'']
        [edge_of (Some ''e1'') None ''1'' ''2'' None]) = Some g"
    unfolding g_def loaded_def
    by (simp add: fetchGraph_def answering_def env0_def initial_store_def
        normalizeGraphResponse_def buildSigmaGraph_def buildRawGraph_def buildDynamicMap_def
        new_RawGraph_def new_MultiDirectedGraph_def addNode_def addEdgeWithKey_def hasNode_def
        hasEdge_def incrementGraphDataVersion_def node_of_def edge_of_def edgeKey_def Let_def
        nodeAttrs_def edgeAttrs_def edgeSize_def edgeWeight_def)
  have d: "degree g ''1'' = 1" "degree g ''2'' = 1" "degree g ''3'' = 0"
    by (simp_all add: g_def degree_def)
  have s: "g_nodes (sizeByDegree g) =
      [(''1'', (nodeAttrs env0 0 (node_of ''1''))\<lparr>na_size := 9\<rparr>),
       (''2'', (nodeAttrs env0 1 (node_of ''2''))\<lparr>na_size := 9\<rparr>),
       (''3'', (nodeAttrs env0 2 (node_of ''3''))\<lparr>na_size := 5\<rparr>)]"
    using d by (simp add: sizeByDegree_def order_def g_def nodeSize_0 nodeSize_1)
  have m3: "(''3'', (nodeAttrs env0 2 (node_of ''3''))\<lparr>na_size := 5\<rparr>) \<in> set (g_nodes (sizeByDegree g))"
    and m1: "(''1'', (nodeAttrs env0 0 (node_of ''1''))\<lparr>na_size := 9\<rparr>) \<in> set (g_nodes (sizeByDegree g))"
    by (simp_all add: s)
  have "(0::real) \<le> 5 \<and> (5::real) \<le> 40 \<and> (5::real) \<le> 9"
    using sizeByDegree_bounds_mono [OF m3 m1] d by (simp add: degree_sizeByDegree)
  then show ?thesis
    using l s d by (simp add: degree_sizeByDegree)
qed


text \<open>
  C3. Loading the single node with id 1 and \<open>entity_id\<close> 1, with no edges, and running
  the size-by-degree pass: the store is not empty, node 1 has degree 0, and its size is 5,
  the base of the formula, since \<open>log2 (1 + 0) = 0\<close>. The clamp floor 1 is not reached.
\<close>

theorem single_node_load_size:
  "graphIsEmpty (snd (fetchGraph (answering env (RespGraph [node_of ''1''] [])) st)) = False \<and>
   map_option (\<lambda>g. degree (sizeByDegree g) ''1'')
     (sigmaGraph (snd (fetchGraph (answering env (RespGraph [node_of ''1''] [])) st))) = Some 0 \<and>
   map_option (\<lambda>g. map (\<lambda>(n, a). (n, na_size a)) (g_nodes (sizeByDegree g)))
     (sigmaGraph (snd (fetchGraph (answering env (RespGraph [node_of ''1''] [])) st))) =
     Some [(''1'', 5)]"
  by (simp add: load_one sizeByDegree_def order_def degree_def nodeSize_0)

text \<open>The same load does not leave node 1 with size 1.\<close>

theorem single_node_size_not_floor:
  "\<not> (graphIsEmpty (loaded [node_of ''1''] []) = False \<and>
      map_option (\<lambda>g. degree (sizeByDegree g) ''1'') (sigmaGraph (loaded [node_of ''1''] [])) =
        Some 0 \<and>
      map_option (\<lambda>g. map (\<lambda>(n, a). (n, na_size a)) (g_nodes (sizeByDegree g)))
        (sigmaGraph (loaded [node_of ''1''] [])) = Some [(''1'', 1)])"
  by (simp add: loaded_def load_one sizeByDegree_def order_def degree_def nodeSize_0)

subsection \<open>Loading\<close>

text \<open>
  C4. After a successful load the render graph has one edge per raw edge, in order, and the
  size of each is \<open>min 6 (1 + weight * 1.5)\<close>, the weight being the number in the edge's
  \<open>weight\<close> property, or 1 when the edge has none. No lower bound is applied.
\<close>

theorem load_edge_size:
  "fetchGraph env st = (None, st') \<Longrightarrow>
   (\<exists>rg. rawGraph st' = Some rg \<and>
      renderSizes st' =
      map (\<lambda>e. map_option (\<lambda>w. min 6 (1 + w * 1.5)) (edgeWeight env e)) (edges rg))"
  using fetchGraph_ok [of env st st'] buildSigmaGraph_sizes [of env]
  by (fastforce simp: edgeSize_def renderSizes_def)

text \<open>Two nodes and one edge of weight 2 between them: the render size is 4.\<close>

theorem load_edge_size_witness:
  "renderSizes
     (loaded [node_of ''1'', node_of ''2'']
        [edge_of (Some ''e1'') None ''1'' ''2'' (Some [''weight'' \<mapsto> PNum 2])]) = [Some 4]"
proof -
  let ?E = "answering env0 (RespGraph [node_of ''1'', node_of ''2'']
        [edge_of (Some ''e1'') None ''1'' ''2'' (Some [''weight'' \<mapsto> PNum 2])])"
  let ?e = "edge_of (Some ''e1'') None ''1'' ''2'' (Some [''weight'' \<mapsto> PNum 2])"
  have ok: "fst (fetchGraph ?E initial_store) = None"
    by (simp add: model_defs)
  have rg: "map_option edges (rawGraph (snd (fetchGraph ?E initial_store))) = Some [?e]"
    by (simp add: model_defs)
  have w: "edgeWeight ?E ?e = Some 2"
    by (simp add: edgeWeight_def edge_of_def toNumber_def)
  have "fetchGraph ?E initial_store = (None, snd (fetchGraph ?E initial_store))"
    using ok by (simp add: prod_eq_iff)
  from load_edge_size [OF this] rg w show ?thesis
    by (auto simp: loaded_def)
qed

text \<open>
  No floor and ceiling make the size \<open>max floor (1 + weight * 1.5)\<close> clamped to the ceiling
  for every weight.
\<close>

theorem edge_size_no_floor:
  "\<not> (\<exists>minEdgeSize maxSize. \<forall>w.
      edgeSize env0 (edge_of (Some ''e1'') None ''1'' ''2'' (Some [''weight'' \<mapsto> PNum w])) =
      Some (spec_edgeSize minEdgeSize maxSize w))"
proof
  assume "\<exists>minEdgeSize maxSize. \<forall>w.
      edgeSize env0 (edge_of (Some ''e1'') None ''1'' ''2'' (Some [''weight'' \<mapsto> PNum w])) =
      Some (spec_edgeSize minEdgeSize maxSize w)"
  then obtain m mx :: real
    where h: "\<And>w::real. min 6 (1 + w * 3 / 2) = min mx (max m (1 + w * 3 / 2))"
    by (auto simp: edgeSize_def edgeWeight_def toNumber_def edge_of_def spec_edgeSize_def)
  have mx: "4 \<le> mx"
    using h [of 2] by simp
  have m: "m \<le> 1"
    using h [of 0] mx by simp
  have e: "1 + (m - 2) * 2 / 3 * 3 / 2 = m - 1"
    by (simp add: field_simps)
  have "min 6 (m - 1) = min mx (max m (m - 1))"
    using h [of "(m - 2) * 2 / 3"] unfolding e .
  then show False
    using m mx by simp
qed

text \<open>
  C9. When a load fails, the render graph and the raw graph are cleared, the empty-graph
  flag is set, the fetching flag is reset, nothing else of the store changes, and exactly
  one request was sent. The error raised is the error of the rejected request, or else the
  error the graph library raised while the render graph was built.
\<close>

theorem fetchGraph_failure:
  "(queryGraph env (requests st) = Inl e \<longrightarrow> fst (fetchGraph env st) = Some e) \<and>
   (queryGraph env (requests st) = Inr resp \<longrightarrow>
      fst (fetchGraph env st) =
        (case buildSigmaGraph env
                (buildRawGraph (fst (normalizeGraphResponse resp))
                   (snd (normalizeGraphResponse resp))) of
           Inl err \<Rightarrow> Some err
         | Inr g \<Rightarrow> None)) \<and>
   (fst (fetchGraph env st) \<noteq> None \<longrightarrow>
      snd (fetchGraph env st) =
        st\<lparr>isFetching := False, graphDataFetchAttempted := True, requests := requests st + 1,
           sigmaGraph := None, rawGraph := None, graphIsEmpty := True\<rparr>)"
  by (auto simp: fetchGraph_def fetchFailed_def Let_def incrementGraphDataVersion_def
      split: sum.splits prod.splits)

theorem fetchGraph_failure_witness:
  "fst (fetchGraph env0 initial_store) = Some (ApiError ''offline'') \<and>
   sigmaGraph (snd (fetchGraph env0 initial_store)) = None \<and>
   rawGraph (snd (fetchGraph env0 initial_store)) = None \<and>
   graphIsEmpty (snd (fetchGraph env0 initial_store)) \<and>
   requests (snd (fetchGraph env0 initial_store)) = 1"
proof -
  have q: "queryGraph env0 (requests initial_store) = Inl (ApiError ''offline'')"
    by (simp add: env0_def)
  have f: "fst (fetchGraph env0 initial_store) = Some (ApiError ''offline'')"
    using fetchGraph_failure [of env0 initial_store "ApiError ''offline''" RespNone] q by blast
  then have "fst (fetchGraph env0 initial_store) \<noteq> None"
    by simp
  then have "snd (fetchGraph env0 initial_store) =
        initial_store\<lparr>isFetching := False, graphDataFetchAttempted := True,
           requests := requests initial_store + 1,
           sigmaGraph := None, rawGraph := None, graphIsEmpty := True\<rparr>"
    using fetchGraph_failure [of env0 initial_store "ApiError ''offline''" RespNone] by blast
  then show ?thesis
    using f by (simp add: initial_store_def)
qed


subsection \<open>Editing a node\<close>

text \<open>
  C1. The graph with the nodes 1 and 2 and one edge from 1 to 2 is loaded, the edge as the
  backend sends it: with an id and no \<open>dynamicId\<close>. Renaming node 1 to alpha returns without
  an error and renames the raw node, but the raw edge still has source 1, and the
  dynamic-id index still holds the key it had before the rename (\<open>undefined\<close>, the key of
  an edge without \<open>dynamicId\<close>). Only the render graph has the edge from alpha to 2, under
  a generated key. \<open>fetchGraph\<close> never gives an edge the \<open>dynamicId\<close> under which the rename
  looks the raw edge up.
\<close>

theorem rename_plain_edge_not_rewired:
  "fst (updateNodeAndSelect ''1'' ''1'' ''entity_id'' ''alpha''
     (loaded [node_of ''1'', node_of ''2''] [edge_of (Some ''e1'') None ''1'' ''2'' None])) = None \<and>
   rawNodeIds (renamed ''1'' ''alpha''
     (loaded [node_of ''1'', node_of ''2''] [edge_of (Some ''e1'') None ''1'' ''2'' None])) =
     [''alpha'', ''2''] \<and>
   endpoints (renamed ''1'' ''alpha''
     (loaded [node_of ''1'', node_of ''2''] [edge_of (Some ''e1'') None ''1'' ''2'' None])) =
     [(''1'', ''2'')] \<and>
   dynamicIndex (renamed ''1'' ''alpha''
     (loaded [node_of ''1'', node_of ''2''] [edge_of (Some ''e1'') None ''1'' ''2'' None]))
     ''undefined'' = Some 0 \<and>
   renderEdges (renamed ''1'' ''alpha''
     (loaded [node_of ''1'', node_of ''2''] [edge_of (Some ''e1'') None ''1'' ''2'' None])) =
     [(''geid_0_0'', ''alpha'', ''2'')]"
  by (simp add: view_defs model_defs show_nat_0)

text \<open>
  When the record of the edge carries a \<open>dynamicId\<close> equal to its render key, the same
  rename rewires the raw edge and moves the key of the dynamic-id index.
\<close>

lemma rename_rewires_when_dynamicId_is_key:
  "rawNodeIds (renamed ''1'' ''alpha''
     (loaded [node_of ''1'', node_of ''2''] [edge_of (Some ''e1'') (Some ''e1'') ''1'' ''2'' None])) =
     [''alpha'', ''2''] \<and>
   endpoints (renamed ''1'' ''alpha''
     (loaded [node_of ''1'', node_of ''2''] [edge_of (Some ''e1'') (Some ''e1'') ''1'' ''2'' None])) =
     [(''alpha'', ''2'')] \<and>
   dynamicIndex (renamed ''1'' ''alpha''
     (loaded [node_of ''1'', node_of ''2''] [edge_of (Some ''e1'') (Some ''e1'') ''1'' ''2'' None]))
     ''e1'' = None \<and>
   dynamicIndex (renamed ''1'' ''alpha''
     (loaded [node_of ''1'', node_of ''2''] [edge_of (Some ''e1'') (Some ''e1'') ''1'' ''2'' None]))
     ''geid_0_0'' = Some 0 \<and>
   renderEdges (renamed ''1'' ''alpha''
     (loaded [node_of ''1'', node_of ''2''] [edge_of (Some ''e1'') (Some ''e1'') ''1'' ''2'' None])) =
     [(''geid_0_0'', ''alpha'', ''2'')]"
  by (simp add: view_defs model_defs show_nat_0)

text \<open>
  C5. Node A has a self-loop whose record carries its render key as \<open>dynamicId\<close>. Renaming
  A to B and B back to A, both without an error, leaves the raw node with id A and the
  raw edge from B to B: no edge is incident to A any more. The render graph has lost the
  edge, and the dynamic-id index has a key for an edge the render graph does not hold.
  The rename attaches the copy of a self-loop to the old node, which it then drops.
\<close>

theorem rename_round_trip_self_loop:
  "endpoints (loaded [node_of ''A''] [edge_of (Some ''e1'') (Some ''e1'') ''A'' ''A'' None]) =
     [(''A'', ''A'')] \<and>
   fst (updateNodeAndSelect ''A'' ''A'' ''entity_id'' ''B''
     (loaded [node_of ''A''] [edge_of (Some ''e1'') (Some ''e1'') ''A'' ''A'' None])) = None \<and>
   fst (updateNodeAndSelect ''B'' ''B'' ''entity_id'' ''A'' (renamed ''A'' ''B''
     (loaded [node_of ''A''] [edge_of (Some ''e1'') (Some ''e1'') ''A'' ''A'' None]))) = None \<and>
   rawNodeIds (renamed ''B'' ''A'' (renamed ''A'' ''B''
     (loaded [node_of ''A''] [edge_of (Some ''e1'') (Some ''e1'') ''A'' ''A'' None]))) = [''A''] \<and>
   endpoints (renamed ''B'' ''A'' (renamed ''A'' ''B''
     (loaded [node_of ''A''] [edge_of (Some ''e1'') (Some ''e1'') ''A'' ''A'' None]))) =
     [(''B'', ''B'')] \<and>
   dynamicIndex (renamed ''B'' ''A'' (renamed ''A'' ''B''
     (loaded [node_of ''A''] [edge_of (Some ''e1'') (Some ''e1'') ''A'' ''A'' None])))
     ''geid_0_0'' = Some 0 \<and>
   renderEdges (renamed ''B'' ''A'' (renamed ''A'' ''B''
     (loaded [node_of ''A''] [edge_of (Some ''e1'') (Some ''e1'') ''A'' ''A'' None]))) = []"
  by (simp add: view_defs model_defs show_nat_0)

text \<open>
  C10. A rename whose new id is already a node of the render graph raises the error
  "Failed to update node in graph" and leaves the whole store, both graphs with it, as it
  was: adding the node is the first step and it fails.
\<close>

theorem rename_to_existing_node_fails:
  assumes "sigmaGraph st = Some g" and "rawGraph st = Some rg"
    and "hasNode g nodeId" and "hasNode g newValue"
  shows "updateNodeAndSelect nodeId nodeId ''entity_id'' newValue st =
           (Some (Error ''Failed to update node in graph''), st)"
proof -
  obtain a where a: "getNodeAttributes g nodeId = Some a"
    using hasNode_attrs [OF assms(3)] by blast
  have "renameNode nodeId newValue g rg st = (Some UsageGraphError, st)"
    using a assms(4) by (simp add: renameNode_def addNode_def)
  then show ?thesis
    using assms by (simp add: updateNodeAndSelect_def)
qed

theorem rename_to_existing_node_fails_witness:
  "updateNodeAndSelect ''1'' ''1'' ''entity_id'' ''2'' (loaded [node_of ''1'', node_of ''2''] []) =
     (Some (Error ''Failed to update node in graph''), loaded [node_of ''1'', node_of ''2''] [])"
proof -
  have "\<exists>g rg. sigmaGraph (loaded [node_of ''1'', node_of ''2''] []) = Some g \<and>
     rawGraph (loaded [node_of ''1'', node_of ''2''] []) = Some rg \<and>
     hasNode g ''1'' \<and> hasNode g ''2''"
    by (simp add: loaded_def model_defs)
  then show ?thesis
    using rename_to_existing_node_fails by blast
qed

text \<open>
  C2. A property update that is not a rename, on a store holding both graphs. If the node
  is in the render graph and the node index leads to a raw node with a properties object,
  the value is written into these properties; when the property is \<open>entity_id\<close> the raw
  labels and the label of the render node are set as well; the version counter grows by
  one and nothing else changes. If the node is in the render graph and not in the node
  index, only the version counter changes. If the node is not in the render graph, nothing
  changes, the version counter included.
\<close>

theorem updateProperty_frame:
  assumes "sigmaGraph st = Some g" and "rawGraph st = Some rg"
    and "\<not> (nodeId = entityId \<and> propertyName = ''entity_id'')"
  shows
   "(hasNode g nodeId \<and> nodeIdMap rg nodeId = Some i \<and> i < length (nodes rg) \<and>
       n_properties (nodes rg ! i) = Some p \<longrightarrow>
       updateNodeAndSelect nodeId entityId propertyName newValue st =
         (None,
          st\<lparr>rawGraph := Some (rg\<lparr>nodes := (nodes rg)
                 [i := (if propertyName = ''entity_id''
                        then (nodes rg ! i)
                               \<lparr>n_properties := Some (p(propertyName \<mapsto> PStr newValue)),
                                n_labels := Some [newValue]\<rparr>
                        else (nodes rg ! i)
                               \<lparr>n_properties := Some (p(propertyName \<mapsto> PStr newValue))\<rparr>)]\<rparr>),
             sigmaGraph :=
               Some (if propertyName = ''entity_id'' then setLabel g nodeId newValue else g),
             graphDataVersion := graphDataVersion st + 1\<rparr>)) \<and>
    (hasNode g nodeId \<and> nodeIdMap rg nodeId = None \<longrightarrow>
       updateNodeAndSelect nodeId entityId propertyName newValue st =
         (None, st\<lparr>graphDataVersion := graphDataVersion st + 1\<rparr>)) \<and>
    (\<not> hasNode g nodeId \<longrightarrow>
       updateNodeAndSelect nodeId entityId propertyName newValue st = (None, st))"
  using assms
  by (auto simp: updateNodeAndSelect_def updateProperty_def updateNodeAttrs_def setLabel_def
      incrementGraphDataVersion_def Let_def)

text \<open>
  Setting the description of the loaded node 1: no error, the property is written, the
  render graph is the same, and the version goes from 1 to 2.
\<close>

theorem updateProperty_frame_witness:
  "fst (updateNodeAndSelect ''1'' ''1'' ''description'' ''text'' (loaded [node_of ''1''] [])) = None \<and>
   map_option (\<lambda>rg. map (\<lambda>n. map_option (\<lambda>p. p ''description'') (n_properties n)) (nodes rg))
     (rawGraph (snd (updateNodeAndSelect ''1'' ''1'' ''description'' ''text''
        (loaded [node_of ''1''] [])))) = Some [Some (Some (PStr ''text''))] \<and>
   sigmaGraph (snd (updateNodeAndSelect ''1'' ''1'' ''description'' ''text''
        (loaded [node_of ''1''] []))) = sigmaGraph (loaded [node_of ''1''] []) \<and>
   graphDataVersion (snd (updateNodeAndSelect ''1'' ''1'' ''description'' ''text''
        (loaded [node_of ''1''] []))) = 2"
proof -
  let ?st = "loaded [node_of ''1''] []"
  let ?p = "[''entity_id'' \<mapsto> PStr ''1'']"
  have "\<exists>g rg. sigmaGraph ?st = Some g \<and> rawGraph ?st = Some rg \<and> hasNode g ''1'' \<and>
      nodeIdMap rg ''1'' = Some 0 \<and> 0 < length (nodes rg) \<and>
      n_properties (nodes rg ! 0) = Some ?p \<and> graphDataVersion ?st = 1 \<and>
      nodes rg = [node_of ''1'']"
    by (simp add: loaded_def model_defs)
  then obtain g rg where h: "sigmaGraph ?st = Some g" "rawGraph ?st = Some rg"
      "hasNode g ''1'' \<and> nodeIdMap rg ''1'' = Some 0 \<and> 0 < length (nodes rg) \<and>
       n_properties (nodes rg ! 0) = Some ?p" "graphDataVersion ?st = 1"
      "nodes rg = [node_of ''1'']"
    by blast
  have n: "\<not> (''1'' = ''1'' \<and> ''description'' = ''entity_id'')"
    by simp
  from updateProperty_frame [OF h(1,2) n, of 0 ?p "''text''"] h show ?thesis
    by simp
qed

text \<open>
  An id that neither graph knows: the call returns at once and the version counter stays.
  And a node loaded without a properties object: the update raises the error, writes
  nothing and leaves the version counter.
\<close>

theorem unknown_node_version_not_bumped:
  "\<not> (graphDataVersion (snd (updateNodeAndSelect ''9'' ''9'' ''description'' ''text''
          (loaded [node_of ''1''] []))) = graphDataVersion (loaded [node_of ''1''] []) + 1) \<and>
   \<not> (fst (updateNodeAndSelect ''1'' ''1'' ''description'' ''text''
          (loaded [bare_node ''1''] [])) = None) \<and>
   \<not> (graphDataVersion (snd (updateNodeAndSelect ''1'' ''1'' ''description'' ''text''
          (loaded [bare_node ''1''] []))) = graphDataVersion (loaded [bare_node ''1''] []) + 1)"
  by (simp add: loaded_def model_defs bare_node_def)

subsection \<open>What is inspected\<close>

text \<open>
  C7. For every state of the four references, \<open>resolveCurrent\<close> inspects the first
  non-empty one in the order focused node, selected node, focused edge, selected edge,
  as a node for the first two and as an edge for the last two, and nothing when all four
  are empty. With the focused node x and the selected node y it is node x that is
  inspected.
\<close>

theorem resolveCurrent_precedence:
  "resolveCurrent st =
     (case spec_inspected st of
        None \<Rightarrow> (None, None)
      | Some (kind, k) \<Rightarrow>
          (Some kind,
           if kind = ''node'' then refineNodeProperties st k else refineEdgeProperties st k)) \<and>
   resolveCurrent (st\<lparr>focusedNode := Some ''x'', selectedNode := Some ''y''\<rparr>) =
     (Some ''node'',
      refineNodeProperties (st\<lparr>focusedNode := Some ''x'', selectedNode := Some ''y''\<rparr>) ''x'')"
  by (simp add: resolveCurrent_def spec_inspected_def nonEmpty_def split: option.splits)

text \<open>The element a node reference resolves to is the raw node the index has for it.\<close>

lemma refineNodeProperties_node:
  "refineNodeProperties st k = Some (NodeElement n d rs) \<Longrightarrow>
   \<exists>rg. rawGraph st = Some rg \<and> getNode rg k = Some n"
  by (auto simp: refineNodeProperties_def split: option.splits if_splits)

text \<open>On the loaded nodes x and y, x focused and y selected: the element is the node x.\<close>

lemma resolveCurrent_focused_example:
  "map_option (\<lambda>el. case el of NodeElement n d rs \<Rightarrow> n_id n | EdgeElement e k s t \<Rightarrow> ''edge'')
     (snd (resolveCurrent ((loaded [node_of ''x'', node_of ''y''] [])
        \<lparr>focusedNode := Some ''x'', selectedNode := Some ''y''\<rparr>))) = Some ''x''"
  by (simp add: resolveCurrent_def nonEmpty_def refineNodeProperties_def getNode_def degree_def
      loaded_def model_defs)

subsection \<open>Click or drag\<close>

text \<open>
  The path on which the handlers tell a click from a drag. While node dragging is enabled
  and a renderer shows a graph that has the node \<open>n\<close> (its id not the empty string): a
  gesture on \<open>n\<close>, that is pointer-down at \<open>p\<close>, any moves, pointer-up and the click the
  renderer reports, selects \<open>n\<close> exactly when no move was farther than 4 pixels from \<open>p\<close>
  (squared distance above 16); a gesture with such a move selects nothing. After a gesture
  with moves the node is where the last move put it.
\<close>

lemma gesture_select_iff_no_breach:
  assumes "enableNodeDrag v" and "sigma v" and "currentGraph v = Some g" and "hasNode g n"
    and "n \<noteq> []"
  shows "snd (run vtg v (gesture n p ms)) =
           (if \<exists>m\<in>set ms. breach p m then [] else [CallSetSelectedNode n]) \<and>
         (ms \<noteq> [] \<longrightarrow> positionOf (fst (run vtg v (gesture n p ms))) n = Some (vtg (last ms)))"
proof -
  obtain v1 where v1: "onDownNode v n (fst p) (snd p) = (v1, [])" "dragging v1 n p"
      "\<not> dragMoved v1"
    using onDownNode_dragging [OF assms(1-4), of "fst p" "snd p"] by auto
  obtain v2 where v2: "run vtg v1 (map (\<lambda>m. MouseMoveBody (fst m) (snd m)) ms) = (v2, [])"
      "dragging v2 n p" "dragMoved v2 = (dragMoved v1 \<or> (\<exists>m\<in>set ms. breach p m))"
      "positionOf v2 n = (if ms = [] then positionOf v1 n else Some (vtg (last ms)))"
    using moves_dragging [OF v1(2) assms(5)] by blast
  obtain v3 where v3: "run vtg v2 [MouseUp, ClickNode n] =
      (v3, if dragMoved v2 then [] else [CallSetSelectedNode n])"
      "positionOf v3 n = positionOf v2 n"
    using up_click_dragging [OF v2(2) assms(5)] by blast
  have "run vtg v (gesture n p ms) = (v3, if dragMoved v2 then [] else [CallSetSelectedNode n])"
    unfolding gesture_def using v1(1) v2(1) v3(1) by (simp add: run_append)
  then show ?thesis
    using v1(3) v2(3,4) v3(2) by simp
qed

text \<open>
  On the loaded node 1: a gesture without a move selects it; a gesture with a move to
  (3, 4), at distance 5, selects nothing and leaves the node at (3, 4).
\<close>

lemma gesture_select_iff_no_breach_example:
  "snd (run id viewer0 (gesture ''1'' (0, 0) [])) = [CallSetSelectedNode ''1''] \<and>
   snd (run id viewer0 (gesture ''1'' (0, 0) [(3, 4)])) = [] \<and>
   positionOf (fst (run id viewer0 (gesture ''1'' (0, 0) [(3, 4)]))) ''1'' = Some (3, 4)"
proof -
  have h: "enableNodeDrag viewer0" "sigma viewer0"
    "\<exists>g. currentGraph viewer0 = Some g \<and> hasNode g ''1''" "''1'' \<noteq> []"
    by (simp_all add: viewer0_def initial_viewer_def loaded_def model_defs)
  then obtain g where g: "currentGraph viewer0 = Some g" "hasNode g ''1''"
    by blast
  have b: "breach (0, 0) (3, 4)"
    by (simp add: breach_def DRAG_CLICK_EPS_def)
  show ?thesis
    using gesture_select_iff_no_breach [OF h(1,2) g h(4), of id "(0, 0)" "[]"]
      gesture_select_iff_no_breach [OF h(1,2) g h(4), of id "(0, 0)" "[(3, 4)]"] b
    by simp
qed

text \<open>
  With dragging switched off and no drag made before, a gesture without a move selects the
  node as well: the handlers of pointer-down and pointer-up return at once and the click
  handler finds both flags unset.
\<close>

lemma click_selects_with_drag_disabled:
  "snd (run id (viewer0\<lparr>enableNodeDrag := False\<rparr>) (gesture ''1'' (0, 0) [])) =
     [CallSetSelectedNode ''1'']"
  by (simp add: viewer0_def initial_viewer_def loaded_def model_defs gesture_def
      onDownNode_def onMouseUp_def onClickNode_def nonEmpty_def)

text \<open>
  C6. A pointer-down on a node followed by pointer-up with zero displacement is a click and
  has to select the node. On the loaded node 1: after one drag of the node (a move to
  (3, 4), at distance 5) and with dragging then switched off, the flag \<open>dragMoved\<close> is
  still set, and a gesture on node 1 without any move, whose threshold was never
  breached, emits no select. Pointer-down resets the flag only behind the test of the
  switch, and the click handler tests the flag whatever the switch says.
\<close>

theorem click_swallowed_after_drag_then_disabled:
  "dragMoved (fst (run id viewer0 (gesture ''1'' (0, 0) [(3, 4)] @ [SetDragEnabled False]))) \<and>
   snd (run id
          (fst (run id viewer0 (gesture ''1'' (0, 0) [(3, 4)] @ [SetDragEnabled False])))
          (gesture ''1'' (0, 0) [])) = []"
  by (simp add: viewer0_def initial_viewer_def loaded_def model_defs gesture_def
      onDownNode_def onMouseMove_def onMouseUp_def onClickNode_def nonEmpty_def
      DRAG_CLICK_EPS_def)

text \<open>
  Two more gestures outside the path above. With dragging switched off from the start, a
  gesture with a move farther than 4 pixels does not move the node. And on a node whose
  id is the empty string, which the move handler takes for no node, a gesture with such a
  move still selects.
\<close>

lemma gestures_outside_drag_path:
  "positionOf (fst (run id (viewer0\<lparr>enableNodeDrag := False\<rparr>)
      (gesture ''1'' (0, 0) [(3, 4)]))) ''1'' \<noteq> Some (3, 4) \<and>
   snd (run id (initial_viewer (sigmaGraph (loaded [node_of []] [])))
      (gesture [] (0, 0) [(3, 4)])) = [CallSetSelectedNode []]"
  by (simp add: viewer0_def initial_viewer_def loaded_def model_defs gesture_def
      onDownNode_def onMouseMove_def onMouseUp_def onClickNode_def nonEmpty_def
      DRAG_CLICK_EPS_def positionOf_def)

end
